theory Spec2Isabelle
  imports Complex_Main
begin

section \<open>Common infrastructure\<close>

text \<open>
  Every controller is wrapped in \<^verbatim>\<open>asyncWrapper\<close> and reports a failure through
  \<^verbatim>\<open>next(createCustomError(message, statusCode))\<close>; an exception thrown by the
  controller body, by a schema validator during \<^verbatim>\<open>save()\<close> or by the JavaScript
  runtime is passed to \<^verbatim>\<open>next\<close> as well.  A controller is therefore modelled as a
  function that returns either an error or the response, together with the
  persisted collection after the request.
\<close>

datatype error =
    CustomAPIError string nat
  | ValidationError string
  | CastError string
  | TypeError string
  | PlainError string
  | DuplicateKeyError string

text \<open>A word between single quotes, as the error messages print it.\<close>

definition quoted :: "string \<Rightarrow> string" where
  "quoted s = [CHR 0x27] @ s @ [CHR 0x27]"

text \<open>
  Stock quantities and amounts are modelled as integers; an ObjectId is the
  string it prints as; a timestamp is a number of milliseconds.
\<close>

type_synonym objectId = string
type_synonym date = int

text \<open>
  \<^verbatim>\<open>req.user.userId\<close> as a JavaScript value.  The \<^verbatim>\<open>authenticate\<close> middleware
  (\<^verbatim>\<open>middleware/auth.js\<close>, line 36) stores \<^verbatim>\<open>user._id\<close>, an ObjectId object, under
  this key; the controllers use it in queries and assignments (where it is cast
  to the identifier it holds) and in strict comparisons with strings.  A strict
  comparison \<^verbatim>\<open>s === userId\<close> of a string with an object is false whatever the
  object holds.
\<close>

datatype userIdValue = IdString objectId | IdObject objectId

fun idOf :: "userIdValue \<Rightarrow> objectId" where
  "idOf (IdString s) = s"
| "idOf (IdObject s) = s"

fun strictEqual :: "string \<Rightarrow> userIdValue \<Rightarrow> bool" where
  "strictEqual s (IdString t) = (s = t)"
| "strictEqual s (IdObject t) = False"

text \<open>Decimal rendering of a number inside a template literal.\<close>

definition digitChar :: "nat \<Rightarrow> char" where
  "digitChar d = ''0123456789'' ! d"

fun showNat :: "nat \<Rightarrow> string" where
  "showNat n = (if n < 10 then [digitChar n] else showNat (n div 10) @ [digitChar (n mod 10)])"


section \<open>Inventory items (models/InventoryItem.js)\<close>

text \<open>
  The fields of the schema that the stock operations read or write.  The
  schema declares \<^verbatim>\<open>min: 0\<close> on \<^verbatim>\<open>currentStock\<close>; \<^verbatim>\<open>save()\<close> runs that
  validator on the modified path before it writes.
\<close>

record InventoryItem =
  item_oid :: objectId
  itemId :: string
  item_name :: string
  currentStock :: int
  minimumStock :: int


definition findItemByItemId :: "InventoryItem list \<Rightarrow> string \<Rightarrow> InventoryItem option" where
  "findItemByItemId coll k = find (\<lambda>d. itemId d = k) coll"

definition writeItem :: "InventoryItem list \<Rightarrow> InventoryItem \<Rightarrow> InventoryItem list" where
  "writeItem coll d = map (\<lambda>x. if item_oid x = item_oid d then d else x) coll"

definition saveItem :: "InventoryItem list \<Rightarrow> InventoryItem \<Rightarrow> error + InventoryItem list" where
  "saveItem coll d =
     (if currentStock d < 0 then Inl (ValidationError ''currentStock'')
      else Inr (writeItem coll d))"

subsection \<open>updateStock\<close>

record StockBody =
  quantity :: "int option"
  operation :: "string option"
  reason :: "string option"




subsection \<open>JSON values and object literals\<close>

text \<open>
  Responses whose shape matters are modelled as JSON values.  A JavaScript
  object literal that names a key twice keeps the position of the first
  occurrence and the value of the last one.
\<close>

datatype json =
    JNull
  | JBool bool
  | JNum int
  | JStr string
  | JArr "json list"
  | JObj "(string \<times> json) list"

fun setProp :: "(string \<times> json) list \<Rightarrow> string \<Rightarrow> json \<Rightarrow> (string \<times> json) list" where
  "setProp [] k v = [(k, v)]"
| "setProp ((k', v') # ps) k v = (if k' = k then (k, v) # ps else (k', v') # setProp ps k v)"

definition objectLiteral :: "(string \<times> json) list \<Rightarrow> (string \<times> json) list" where
  "objectLiteral props = fold (\<lambda>kv obj. setProp obj (fst kv) (snd kv)) props []"

definition getProp :: "(string \<times> json) list \<Rightarrow> string \<Rightarrow> json option" where
  "getProp obj k = map_of obj k"

subsection \<open>bulkUpdateStock\<close>

text \<open>
  \<^verbatim>\<open>String.prototype.toUpperCase\<close> on ASCII letters; identifiers of this
  application are ASCII.
\<close>

definition toUpperChar :: "char \<Rightarrow> char" where
  "toUpperChar c =
     (case map_of (zip ''abcdefghijklmnopqrstuvwxyz'' ''ABCDEFGHIJKLMNOPQRSTUVWXYZ'') c of
        None \<Rightarrow> c
      | Some u \<Rightarrow> u)"

definition toUpperCase :: "string \<Rightarrow> string" where
  "toUpperCase s = map toUpperChar s"

record StockUpdateLine =
  line_itemId :: "string option"
  line_quantity :: "int option"
  line_operation :: "string option"
  line_reason :: "string option"

record BulkResult =
  r_itemId :: string
  r_name :: string
  r_operation :: string
  r_quantity :: int
  r_newStock :: int
  r_isLowStock :: bool

record BulkError =
  e_itemId :: "string option"
  e_error :: string

text \<open>
  One iteration of the loop body: either the entry pushed on \<^verbatim>\<open>errors\<close> (the
  collection is then left as it was) or the entry pushed on \<^verbatim>\<open>results\<close> with
  the collection after \<^verbatim>\<open>item.save()\<close>.  A validation failure thrown by
  \<^verbatim>\<open>save()\<close> is caught by the \<^verbatim>\<open>catch\<close> clause of the iteration.
\<close>

definition errorMessage :: "error \<Rightarrow> string" where
  "errorMessage e = (case e of
      CustomAPIError m c \<Rightarrow> m
    | ValidationError p \<Rightarrow> ''InventoryItem validation failed: '' @ p
    | CastError m \<Rightarrow> m
    | TypeError m \<Rightarrow> m
    | PlainError m \<Rightarrow> m
    | DuplicateKeyError m \<Rightarrow> m)"

definition bulkLine :: "InventoryItem list \<Rightarrow> StockUpdateLine \<Rightarrow> BulkError + (BulkResult \<times> InventoryItem list)" where
  "bulkLine coll su =
     (case (line_itemId su, line_quantity su, line_operation su) of
        (Some iid, Some q, Some op) \<Rightarrow>
          if iid = [] \<or> q = 0 \<or> op = [] then
            Inl \<lparr>e_itemId = line_itemId su, e_error = ''ItemId, quantity, and operation are required''\<rparr>
          else if op \<notin> set [''add'', ''subtract''] then
            Inl \<lparr>e_itemId = line_itemId su,
                 e_error = ''Operation must be '' @ quoted ''add'' @ '' or '' @ quoted ''subtract''\<rparr>
          else
            (case findItemByItemId coll (toUpperCase iid) of
               None \<Rightarrow> Inl \<lparr>e_itemId = line_itemId su, e_error = ''Item not found''\<rparr>
             | Some item \<Rightarrow>
                 if op = ''subtract'' \<and> currentStock item < q then
                   Inl \<lparr>e_itemId = line_itemId su, e_error = ''Insufficient stock''\<rparr>
                 else
                   (let item' = (if op = ''add'' then item\<lparr>currentStock := currentStock item + q\<rparr>
                                 else item\<lparr>currentStock := currentStock item - q\<rparr>) in
                    case saveItem coll item' of
                      Inl e \<Rightarrow> Inl \<lparr>e_itemId = line_itemId su, e_error = errorMessage e\<rparr>
                    | Inr coll' \<Rightarrow>
                        Inr (\<lparr>r_itemId = itemId item', r_name = item_name item', r_operation = op,
                              r_quantity = q, r_newStock = currentStock item',
                              r_isLowStock = (currentStock item' \<le> minimumStock item')\<rparr>, coll')))
      | _ \<Rightarrow> Inl \<lparr>e_itemId = line_itemId su, e_error = ''ItemId, quantity, and operation are required''\<rparr>)"

fun bulkLoop ::
  "StockUpdateLine list \<Rightarrow> InventoryItem list \<Rightarrow> BulkResult list \<Rightarrow> BulkError list \<Rightarrow>
   InventoryItem list \<times> BulkResult list \<times> BulkError list" where
  "bulkLoop [] coll results errors = (coll, results, errors)"
| "bulkLoop (su # rest) coll results errors =
     (case bulkLine coll su of
        Inl e \<Rightarrow> bulkLoop rest coll results (errors @ [e])
      | Inr (r, coll') \<Rightarrow> bulkLoop rest coll' (results @ [r]) errors)"

definition resultJson :: "BulkResult \<Rightarrow> json" where
  "resultJson r = JObj (objectLiteral
     [(''itemId'', JStr (r_itemId r)), (''name'', JStr (r_name r)), (''operation'', JStr (r_operation r)),
      (''quantity'', JNum (r_quantity r)), (''newStock'', JNum (r_newStock r)),
      (''isLowStock'', JBool (r_isLowStock r))])"

definition errorJson :: "BulkError \<Rightarrow> json" where
  "errorJson e = JObj (objectLiteral
     ((case e_itemId e of None \<Rightarrow> [] | Some i \<Rightarrow> [(''itemId'', JStr i)]) @ [(''error'', JStr (e_error e))]))"

text \<open>
  The response literal of the source is
  \<^verbatim>\<open>{ success: true, message: ..., processed: results.length, errors: errors.length, results, errors }\<close>:
  the key \<^verbatim>\<open>errors\<close> occurs twice.
\<close>

definition bulkResponse :: "BulkResult list \<Rightarrow> BulkError list \<Rightarrow> (string \<times> json) list" where
  "bulkResponse results errors = objectLiteral
     [(''success'', JBool True),
      (''message'', JStr ''Bulk stock update completed''),
      (''processed'', JNum (int (length results))),
      (''errors'', JNum (int (length errors))),
      (''results'', JArr (map resultJson results)),
      (''errors'', JArr (map errorJson errors))]"

definition bulkUpdateStock ::
  "InventoryItem list \<Rightarrow> StockUpdateLine list option \<Rightarrow> (error + (string \<times> json) list) \<times> InventoryItem list" where
  "bulkUpdateStock coll items =
     (case items of
        None \<Rightarrow> (Inl (CustomAPIError ''Items array is required'' 400), coll)
      | Some lines \<Rightarrow>
          if lines = [] then (Inl (CustomAPIError ''Items array is required'' 400), coll)
          else (case bulkLoop lines coll [] [] of
                  (coll', results, errors) \<Rightarrow> (Inr (bulkResponse results errors), coll')))"

section \<open>Bookings (Booking model, the two booking controllers)\<close>

text \<open>
  The fields of the Booking schema that the status operations read or write.
  The repository holds two booking controllers, each exporting an
  \<^verbatim>\<open>updateBookingStatus\<close>: the one of \<^verbatim>\<open>backend/controllers/bookingController.js\<close>
  (lines 339-388), which writes the requested status with
  \<^verbatim>\<open>findByIdAndUpdate\<close>, and the one annotated "inspector/cashier" (second module
  of \<^verbatim>\<open>backend/controllers/leaveRequestController.js\<close>, lines 728-780), which
  checks a transition table first.  They are told apart by a suffix.  The
  calls of \<^verbatim>\<open>new Date()\<close> within one request are modelled by one time \<open>now\<close>.
  The first reads the key \<^verbatim>\<open>notes\<close> of the body, the second the key \<^verbatim>\<open>note\<close>.
  \<^verbatim>\<open>req.user.userId\<close> is only stored (\<^verbatim>\<open>createdBy\<close>), so the parameter
  \<open>userId\<close> is the identifier it holds.
\<close>

record BookingNote =
  note_text :: string
  note_createdBy :: objectId
  note_createdAt :: date

record Booking =
  booking_oid :: objectId
  bookingId :: string
  booking_status :: string
  booking_completedAt :: "date option"
  booking_notes :: "BookingNote list"

definition findBookingById :: "Booking list \<Rightarrow> objectId \<Rightarrow> Booking option" where
  "findBookingById coll i = find (\<lambda>b. booking_oid b = i) coll"

definition writeBooking :: "Booking list \<Rightarrow> Booking \<Rightarrow> Booking list" where
  "writeBooking coll b = map (\<lambda>x. if booking_oid x = booking_oid b then b else x) coll"

definition validStatuses :: "string list" where
  "validStatuses = [''pending'', ''inspecting'', ''working'', ''completed'', ''cancelled'']"

definition allowedTransitions :: "(string \<times> string list) list" where
  "allowedTransitions =
     [(''pending'', [''inspecting'', ''cancelled'']),
      (''inspecting'', [''working'', ''cancelled'']),
      (''working'', [''completed'', ''cancelled'']),
      (''completed'', []),
      (''cancelled'', [])]"

record BookingStatusBody =
  body_status :: "string option"
  body_note :: "string option"
  body_notes :: "string option"

text \<open>
  \<^verbatim>\<open>updateBookingStatus\<close> with the transition table.  A stored status that is
  not a key of the table makes \<^verbatim>\<open>allowedTransitions[currentStatus].includes\<close> throw.
\<close>

definition updateBookingStatus_checked ::
  "Booking list \<Rightarrow> objectId \<Rightarrow> BookingStatusBody \<Rightarrow> objectId \<Rightarrow> date \<Rightarrow> (error + Booking) \<times> Booking list" where
  "updateBookingStatus_checked coll bid body userId now =
     (case body_status body of
        None \<Rightarrow> (Inl (CustomAPIError ''Status is required'' 400), coll)
      | Some status \<Rightarrow>
          if status = [] then (Inl (CustomAPIError ''Status is required'' 400), coll)
          else if status \<notin> set validStatuses then (Inl (CustomAPIError ''Invalid status'' 400), coll)
          else
            (case findBookingById coll bid of
               None \<Rightarrow> (Inl (CustomAPIError (''No booking with id: '' @ bid) 404), coll)
             | Some booking \<Rightarrow>
                 (let currentStatus = booking_status booking in
                  case map_of allowedTransitions currentStatus of
                    None \<Rightarrow> (Inl (TypeError ''Cannot read properties of undefined (reading includes)''), coll)
                  | Some allowed \<Rightarrow>
                      if status \<notin> set allowed then
                        (Inl (CustomAPIError
                               (''Cannot change status from '' @ currentStatus @ '' to '' @ status) 400), coll)
                      else
                        (let b1 = booking\<lparr>booking_status := status\<rparr>;
                             b2 = (if status = ''completed'' then b1\<lparr>booking_completedAt := Some now\<rparr> else b1);
                             msg = (case body_note body of
                                       None \<Rightarrow> ''Status updated to '' @ status
                                     | Some n \<Rightarrow> if n = [] then ''Status updated to '' @ status else n);
                             b3 = b2\<lparr>booking_notes := booking_notes b2 @
                                     [\<lparr>note_text = msg, note_createdBy = userId, note_createdAt = now\<rparr>]\<rparr>
                         in (Inr b3, writeBooking coll b3)))))"

record BookingStatusResponse =
  resp_bookingId :: string
  resp_status :: string
  resp_completedAt :: "date option"

text \<open>\<^verbatim>\<open>updateBookingStatus\<close> of \<^verbatim>\<open>bookingController.js\<close>: no transition table.\<close>

definition updateBookingStatus_direct ::
  "Booking list \<Rightarrow> objectId \<Rightarrow> BookingStatusBody \<Rightarrow> objectId \<Rightarrow> date \<Rightarrow>
   (error + BookingStatusResponse) \<times> Booking list" where
  "updateBookingStatus_direct coll bid body userId now =
     (case body_status body of
        None \<Rightarrow> (Inl (CustomAPIError ''Status is required'' 400), coll)
      | Some status \<Rightarrow>
          if status = [] then (Inl (CustomAPIError ''Status is required'' 400), coll)
          else if status \<notin> set validStatuses then (Inl (CustomAPIError ''Invalid status'' 400), coll)
          else
            (case findBookingById coll bid of
               None \<Rightarrow> (Inl (CustomAPIError (''No booking found with id: '' @ bid) 404), coll)
             | Some stored \<Rightarrow>
                 (let b1 = stored\<lparr>booking_status := status\<rparr>;
                      b2 = (if status = ''completed'' then b1\<lparr>booking_completedAt := Some now\<rparr> else b1);
                      b3 = (case body_notes body of
                              None \<Rightarrow> b2
                            | Some n \<Rightarrow>
                                if n = [] then b2
                                else b2\<lparr>booking_notes := booking_notes b2 @
                                        [\<lparr>note_text = n, note_createdBy = userId, note_createdAt = now\<rparr>]\<rparr>)
                  in (Inr \<lparr>resp_bookingId = bookingId b3, resp_status = booking_status b3,
                            resp_completedAt = booking_completedAt b3\<rparr>,
                      writeBooking coll b3))))"

text \<open>
  The transition table as the specification words it (section 4.5), to be
  compared with \<open>allowedTransitions\<close> of the source.
\<close>

definition specBookingTransition :: "string \<Rightarrow> string \<Rightarrow> bool" where
  "specBookingTransition cur req =
     ((cur = ''pending'' \<and> (req = ''inspecting'' \<or> req = ''cancelled'')) \<or>
      (cur = ''inspecting'' \<and> (req = ''working'' \<or> req = ''cancelled'')) \<or>
      (cur = ''working'' \<and> (req = ''completed'' \<or> req = ''cancelled'')))"

section \<open>Goods requests (models/GoodsRequest.js, goods request controller)\<close>

text \<open>
  Of a user the controllers read the role and
  \<^verbatim>\<open>employeeDetails.department\<close>; \<^verbatim>\<open>userId\<close> is the generated identifier.
\<close>

record EmployeeDetails =
  department :: "string option"

record User =
  user_oid :: objectId
  userId :: string
  role :: string
  employeeDetails :: "EmployeeDetails option"

definition findUserById :: "User list \<Rightarrow> objectId \<Rightarrow> User option" where
  "findUserById coll i = find (\<lambda>u. user_oid u = i) coll"

record RequestItem =
  ri_item :: objectId
  ri_quantity :: int
  ri_purpose :: "string option"

record GoodsRequest =
  gr_oid :: objectId
  gr_requestId :: string
  gr_job :: objectId
  gr_requestedBy :: objectId
  gr_items :: "RequestItem list"
  gr_status :: string
  gr_approvedBy :: "objectId option"
  gr_approvedAt :: "date option"
  gr_rejectionReason :: "string option"
  gr_notes :: "string option"

record Store =
  users :: "User list"
  inventory :: "InventoryItem list"
  goodsRequests :: "GoodsRequest list"

definition findGoodsRequestById :: "GoodsRequest list \<Rightarrow> objectId \<Rightarrow> GoodsRequest option" where
  "findGoodsRequestById coll i = find (\<lambda>g. gr_oid g = i) coll"

definition writeGoodsRequest :: "GoodsRequest list \<Rightarrow> GoodsRequest \<Rightarrow> GoodsRequest list" where
  "writeGoodsRequest coll g = map (\<lambda>x. if gr_oid x = gr_oid g then g else x) coll"

text \<open>
  The authorization block shared by approve, reject and release: admins and
  managers pass; anybody else must be a stored user of department
  \<^verbatim>\<open>management\<close>.  These controllers use \<^verbatim>\<open>req.user.userId\<close> only in
  \<^verbatim>\<open>User.findById\<close> and in the assignment to \<^verbatim>\<open>approvedBy\<close>, where it is cast;
  their parameter \<open>uid\<close> is the identifier it holds.
\<close>

definition inventoryManager :: "User list \<Rightarrow> objectId \<Rightarrow> string \<Rightarrow> bool" where
  "inventoryManager us uid r =
     (if r \<in> set [''admin'', ''manager''] then True
      else (case findUserById us uid of
              None \<Rightarrow> False
            | Some u \<Rightarrow> (case employeeDetails u of
                           None \<Rightarrow> False
                         | Some ed \<Rightarrow> department ed = Some ''management'')))"




text \<open>
  \<^verbatim>\<open>releaseGoods\<close>: after the checks the source only marks the request
  (\<^verbatim>\<open>// TODO: Implement inventory stock reduction\<close>).
\<close>

definition releaseGoods ::
  "Store \<Rightarrow> objectId \<Rightarrow> objectId \<Rightarrow> string \<Rightarrow> (error + GoodsRequest) \<times> Store" where
  "releaseGoods store i uid r =
     (if \<not> inventoryManager (users store) uid r then
        (Inl (CustomAPIError
               ''Only inventory managers, admins, and managers can release goods'' 403), store)
      else
        (case findGoodsRequestById (goodsRequests store) i of
           None \<Rightarrow> (Inl (CustomAPIError ''Goods request not found'' 404), store)
         | Some goodsRequest \<Rightarrow>
             if gr_status goodsRequest \<noteq> ''approved'' then
               (Inl (CustomAPIError ''Only approved goods requests can be released'' 400), store)
             else
               (let g = goodsRequest\<lparr>gr_status := ''released''\<rparr>
                in (Inr g, store\<lparr>goodsRequests := writeGoodsRequest (goodsRequests store) g\<rparr>))))"

subsection \<open>Example data\<close>

text \<open>
  The store of the scenario "item stock = 3, requested quantity = 5", and the
  same request once approved with 8 items in stock.
\<close>

definition exampleRequest :: GoodsRequest where
  "exampleRequest =
     \<lparr>gr_oid = ''g1'', gr_requestId = ''GR00001'', gr_job = ''j1'', gr_requestedBy = ''u2'',
      gr_items = [\<lparr>ri_item = ''i1'', ri_quantity = 5, ri_purpose = None\<rparr>],
      gr_status = ''pending'', gr_approvedBy = None, gr_approvedAt = None,
      gr_rejectionReason = None, gr_notes = None\<rparr>"

definition exampleItem :: InventoryItem where
  "exampleItem =
     \<lparr>item_oid = ''i1'', itemId = ''ITM00001'', item_name = ''Oil filter'',
      currentStock = 3, minimumStock = 2\<rparr>"


definition approvedRequest :: GoodsRequest where
  "approvedRequest = exampleRequest\<lparr>gr_status := ''approved'', gr_approvedBy := Some ''u1'',
                                     gr_approvedAt := Some 7\<rparr>"

definition approvedStore :: Store where
  "approvedStore =
     \<lparr>users = [], inventory = [exampleItem\<lparr>currentStock := 8\<rparr>], goodsRequests = [approvedRequest]\<rparr>"

section \<open>Jobs (Job model with work log, job controller)\<close>

text \<open>
  \<^verbatim>\<open>jobController.js\<close> imports the default export of \<^verbatim>\<open>models/Job.js\<close> and reads
  \<^verbatim>\<open>assignedLabourers[].labourer\<close> and \<^verbatim>\<open>addWorkLog\<close>; the Job model that has
  these (and the default export) is the one with the work log, whose
  \<^verbatim>\<open>pre("save")\<close> hook stamps the status timestamps.  Hours and costs are
  fractional numbers and are modelled as rationals.  The request body's
  \<^verbatim>\<open>status\<close> is read as a string.
\<close>

record Assignment =
  labourer :: objectId
  assignedAt :: date
  hoursWorked :: rat

record WorkLogEntry =
  wl_labourer :: objectId
  wl_startTime :: date
  wl_endTime :: date
  wl_description :: string
  hoursLogged :: "rat option"

record Job =
  job_oid :: objectId
  jobId :: string
  job_status :: string
  actualHours :: rat
  assignedLabourers :: "Assignment list"
  workLog :: "WorkLogEntry list"
  labourCost :: rat
  startedAt :: "date option"
  completedAt :: "date option"
  job_notes :: "string option"

definition findJobById :: "Job list \<Rightarrow> objectId \<Rightarrow> Job option" where
  "findJobById coll i = find (\<lambda>j. job_oid j = i) coll"

definition writeJob :: "Job list \<Rightarrow> Job \<Rightarrow> Job list" where
  "writeJob coll j = map (\<lambda>x. if job_oid x = job_oid j then j else x) coll"

definition jobStatusEnum :: "string list" where
  "jobStatusEnum = [''pending'', ''working'', ''completed'', ''cancelled'', ''on_hold'']"

text \<open>\<^verbatim>\<open>log.hoursLogged || 0\<close> inside the \<^verbatim>\<open>reduce\<close> over the work log.\<close>

definition loggedOrZero :: "WorkLogEntry \<Rightarrow> rat" where
  "loggedOrZero entry = (case hoursLogged entry of None \<Rightarrow> 0 | Some h \<Rightarrow> h)"

definition workLogTotal :: "WorkLogEntry list \<Rightarrow> rat" where
  "workLogTotal entries = foldl (\<lambda>total entry. total + loggedOrZero entry) 0 entries"

text \<open>
  The \<^verbatim>\<open>pre("save")\<close> hook for a stored document (\<^verbatim>\<open>isNew\<close> is false, so the
  \<^verbatim>\<open>jobId\<close> block is skipped).  \<open>modified\<close> is \<^verbatim>\<open>this.isModified('status')\<close>.
\<close>

definition JobSchema_pre_save :: "bool \<Rightarrow> date \<Rightarrow> Job \<Rightarrow> Job" where
  "JobSchema_pre_save modified now job =
     (let j1 = (if modified then
                  (if job_status job = ''working'' \<and> startedAt job = None
                     then job\<lparr>startedAt := Some now\<rparr>
                   else if job_status job = ''completed'' \<and> completedAt job = None
                     then job\<lparr>completedAt := Some now\<rparr>
                   else job)
                else job);
          j2 = (if workLog j1 \<noteq> [] then j1\<lparr>actualHours := workLogTotal (workLog j1)\<rparr> else j1);
          j3 = (if actualHours j2 > 0 \<and> assignedLabourers j2 \<noteq> []
                  then j2\<lparr>labourCost := actualHours j2 * 50\<rparr> else j2)
      in j3)"

text \<open>
  \<^verbatim>\<open>job.save()\<close> after the controller assigned \<^verbatim>\<open>status\<close>: the path counts as
  modified when the assigned value differs from the stored one; a modified
  status is validated against the schema's \<^verbatim>\<open>enum\<close> before the hook runs.
\<close>

definition saveJob :: "Job list \<Rightarrow> string \<Rightarrow> date \<Rightarrow> Job \<Rightarrow> error + (Job \<times> Job list)" where
  "saveJob coll stored now job =
     (let modified = (job_status job \<noteq> stored) in
      if modified \<and> job_status job \<notin> set jobStatusEnum then Inl (ValidationError ''status'')
      else (let j = JobSchema_pre_save modified now job in Inr (j, writeJob coll j)))"

definition technicianTransitions :: "(string \<times> string list) list" where
  "technicianTransitions =
     [(''pending'', [''working'']),
      (''working'', [''completed'', ''on_hold'']),
      (''on_hold'', [''working''])]"

record JobStatusBody =
  js_status :: string
  js_notes :: "string option"

definition isAssigned :: "Job \<Rightarrow> userIdValue \<Rightarrow> bool" where
  "isAssigned job uid = (\<exists>assignment \<in> set (assignedLabourers job). strictEqual (labourer assignment) uid)"

text \<open>\<^verbatim>\<open>if (notes) job.notes = notes\<close>\<close>

definition assignNotes :: "string option \<Rightarrow> Job \<Rightarrow> Job" where
  "assignNotes n j = (case n of None \<Rightarrow> j | Some m \<Rightarrow> if m = [] then j else j\<lparr>job_notes := Some m\<rparr>)"

definition updateJobStatus ::
  "Job list \<Rightarrow> objectId \<Rightarrow> JobStatusBody \<Rightarrow> userIdValue \<Rightarrow> string \<Rightarrow> date \<Rightarrow>
   (error + Job) \<times> Job list" where
  "updateJobStatus coll i body uid r now =
     (case findJobById coll i of
        None \<Rightarrow> (Inl (CustomAPIError ''Job not found'' 404), coll)
      | Some job \<Rightarrow>
          if r = ''technician'' \<and> \<not> isAssigned job uid then
            (Inl (CustomAPIError ''Access denied. Job not assigned to you'' 403), coll)
          else if r = ''technician'' \<and>
                  \<not> (case map_of technicianTransitions (job_status job) of
                         None \<Rightarrow> False
                       | Some allowed \<Rightarrow> js_status body \<in> set allowed) then
            (Inl (CustomAPIError (''Invalid status transition from '' @ job_status job @ '' to ''
                                   @ js_status body) 400), coll)
          else
            (let j1 = job\<lparr>job_status := js_status body\<rparr>;
                 j2 = assignNotes (js_notes body) j1
             in case saveJob coll (job_status job) now j2 of
                  Inl e \<Rightarrow> (Inl e, coll)
                | Inr (j, coll') \<Rightarrow> (Inr j, coll')))"

text \<open>The technician's table as the specification words it.\<close>

definition specJobTransition :: "string \<Rightarrow> string \<Rightarrow> bool" where
  "specJobTransition cur req =
     ((cur = ''pending'' \<and> req = ''working'') \<or>
      (cur = ''working'' \<and> (req = ''completed'' \<or> req = ''on_hold'')) \<or>
      (cur = ''on_hold'' \<and> req = ''working''))"

definition loggedJob :: Job where
  "loggedJob =
     \<lparr>job_oid = ''j2'', jobId = ''JOB00002'', job_status = ''working'', actualHours = 0,
      assignedLabourers = [\<lparr>labourer = ''t1'', assignedAt = 1, hoursWorked = 7 / 2\<rparr>],
      workLog = [\<lparr>wl_labourer = ''t1'', wl_startTime = 10, wl_endTime = 20, wl_description = ''strip'',
                   hoursLogged = Some (3 / 2)\<rparr>,
                 \<lparr>wl_labourer = ''t1'', wl_startTime = 30, wl_endTime = 40, wl_description = ''refit'',
                   hoursLogged = Some 2\<rparr>],
      labourCost = 0, startedAt = Some 2, completedAt = None, job_notes = None\<rparr>"

definition exampleJob :: Job where
  "exampleJob =
     \<lparr>job_oid = ''j1'', jobId = ''JOB00001'', job_status = ''working'', actualHours = 7,
      assignedLabourers = [\<lparr>labourer = ''t1'', assignedAt = 1, hoursWorked = 0\<rparr>],
      workLog = [], labourCost = 0, startedAt = Some 2, completedAt = None, job_notes = None\<rparr>"

section \<open>Identifier generation (the \<^verbatim>\<open>pre("save")\<close> hooks of the models)\<close>

text \<open>
  Every model generates its identifier the same way; the hooks differ in the
  prefix only (\<^verbatim>\<open>ITM\<close>, \<^verbatim>\<open>INV\<close>, \<^verbatim>\<open>GR\<close>, \<^verbatim>\<open>LR\<close>, \<^verbatim>\<open>JOB\<close>, \<^verbatim>\<open>BK\<close>, \<^verbatim>\<open>VEH\<close>, and
  the role prefixes of users).  \<open>ids\<close> is the list of the identifiers stored
  in the collection.  The query \<^verbatim>\<open>findOne({id: /^PREFIX/}).sort({id: -1})\<close>
  yields the greatest identifier, in the binary order of strings, among those
  the regular expression matches, that is, those that begin with the prefix.
  Numbers are modelled as natural numbers (JavaScript computes exactly below
  \<open>2^53\<close>).
\<close>

definition startsWith :: "string \<Rightarrow> string \<Rightarrow> bool" where
  "startsWith s p = (take (length p) s = p)"

fun stringLess :: "string \<Rightarrow> string \<Rightarrow> bool" where
  "stringLess [] [] = False"
| "stringLess [] (y # ys) = True"
| "stringLess (x # xs) [] = False"
| "stringLess (x # xs) (y # ys) =
     ((of_char x :: nat) < of_char y \<or> (x = y \<and> stringLess xs ys))"

definition greatest :: "string list \<Rightarrow> string option" where
  "greatest ss = (case ss of [] \<Rightarrow> None
                  | x # xs \<Rightarrow> Some (foldl (\<lambda>m s. if stringLess m s then s else m) x xs))"

definition isDigit :: "char \<Rightarrow> bool" where
  "isDigit c = (c \<in> set ''0123456789'')"

text \<open>\<^verbatim>\<open>id.match(/(\d+)$/)\<close>: the digits the identifier ends with, if any.\<close>

definition trailingDigits :: "string \<Rightarrow> string option" where
  "trailingDigits s =
     (let ds = rev (takeWhile isDigit (rev s)) in if ds = [] then None else Some ds)"

definition digitValue :: "char \<Rightarrow> nat" where
  "digitValue c = (case map_of (zip ''0123456789'' [0, 1, 2, 3, 4, 5, 6, 7, 8, 9]) c of
                     None \<Rightarrow> 0 | Some d \<Rightarrow> d)"

definition parseInt :: "string \<Rightarrow> nat" where
  "parseInt ds = foldl (\<lambda>n c. 10 * n + digitValue c) 0 ds"

definition padStart :: "nat \<Rightarrow> char \<Rightarrow> string \<Rightarrow> string" where
  "padStart n c s = replicate (n - length s) c @ s"

definition nextNumber :: "string \<Rightarrow> string list \<Rightarrow> nat" where
  "nextNumber prefix ids =
     (case greatest (filter (\<lambda>s. startsWith s prefix) ids) of
        None \<Rightarrow> 1
      | Some lastId \<Rightarrow>
          (case trailingDigits lastId of
             None \<Rightarrow> 1
           | Some ds \<Rightarrow> parseInt ds + 1))"

definition generateId :: "string \<Rightarrow> string list \<Rightarrow> string" where
  "generateId prefix ids = prefix @ padStart 5 (CHR ''0'') (showNat (nextNumber prefix ids))"

text \<open>\<^verbatim>\<open>InventoryItemSchema.pre("save")\<close> for a new document without \<^verbatim>\<open>itemId\<close>.\<close>

definition generateItemId :: "string list \<Rightarrow> string" where
  "generateItemId ids = generateId ''ITM'' ids"

text \<open>
  \<^verbatim>\<open>UserSchema.pre("save")\<close> for a new document without \<^verbatim>\<open>userId\<close>: the prefix
  is looked up by role; the comment of the source reads "Find the highest
  existing userId for this role".
\<close>

definition rolePrefix :: "(string \<times> string) list" where
  "rolePrefix =
     [(''customer'', ''C''), (''technician'', ''T''), (''service_advisor'', ''SA''),
      (''manager'', ''M''), (''admin'', ''A''), (''cashier'', ''CS'')]"

definition generateUserId :: "string \<Rightarrow> string list \<Rightarrow> error + string" where
  "generateUserId r ids =
     (case map_of rolePrefix r of
        None \<Rightarrow> Inl (PlainError ''Invalid role for userId generation'')
      | Some prefix \<Rightarrow> Inr (generateId prefix ids))"

section \<open>Leave requests (LeaveRequest model, leave request controller)\<close>

text \<open>
  A date of the request body after \<^verbatim>\<open>new Date(...)\<close>: a time in milliseconds,
  or the Invalid Date, with which every comparison is false and which the
  query layer refuses to cast.
\<close>

datatype jsDate = ValidDate date | InvalidDate

fun dateLess :: "jsDate \<Rightarrow> jsDate \<Rightarrow> bool" where
  "dateLess (ValidDate a) (ValidDate b) = (a < b)"
| "dateLess _ _ = False"

record LeaveRequest =
  lr_oid :: objectId
  lr_requestId :: string
  employee :: objectId
  leaveType :: string
  startDate :: date
  endDate :: date
  lr_reason :: string
  lr_status :: string
  lr_approvedBy :: "objectId option"
  lr_approvedAt :: "date option"
  lr_rejectionReason :: "string option"
  totalDays :: "int option"

record LeaveBody =
  lb_leaveType :: "string option"
  lb_startDate :: "jsDate option"
  lb_endDate :: "jsDate option"
  lb_reason :: "string option"

definition findLeaveRequestById :: "LeaveRequest list \<Rightarrow> objectId \<Rightarrow> LeaveRequest option" where
  "findLeaveRequestById coll i = find (\<lambda>d. lr_oid d = i) coll"

definition writeLeaveRequest :: "LeaveRequest list \<Rightarrow> LeaveRequest \<Rightarrow> LeaveRequest list" where
  "writeLeaveRequest coll d = map (\<lambda>x. if lr_oid x = lr_oid d then d else x) coll"

text \<open>
  The query "Check for overlapping leave requests":
  \<^verbatim>\<open>{employee, status: {$in: [pending, approved]}, startDate: {$lte: end}, endDate: {$gte: start}}\<close>,
  in the update with \<^verbatim>\<open>_id: {$ne: id}\<close> in addition (\<open>excluded\<close>).
\<close>

definition overlappingLeave ::
  "LeaveRequest list \<Rightarrow> objectId option \<Rightarrow> objectId \<Rightarrow> date \<Rightarrow> date \<Rightarrow> LeaveRequest option" where
  "overlappingLeave coll excluded employeeId start finish =
     find (\<lambda>d. (case excluded of None \<Rightarrow> True | Some i \<Rightarrow> lr_oid d \<noteq> i)
              \<and> employee d = employeeId
              \<and> lr_status d \<in> set [''pending'', ''approved'']
              \<and> startDate d \<le> finish
              \<and> endDate d \<ge> start) coll"

definition isSpace :: "char \<Rightarrow> bool" where
  "isSpace c = (c \<in> set [CHR '' '', CHR 0x09, CHR 0x0A, CHR 0x0D])"

definition trim :: "string \<Rightarrow> string" where
  "trim s = rev (dropWhile isSpace (rev (dropWhile isSpace s)))"

definition leaveTypeEnum :: "string list" where
  "leaveTypeEnum = [''annual'', ''sick'', ''emergency'', ''maternity'', ''paternity'', ''unpaid'']"

text \<open>The schema validators of the two string paths a request can set.\<close>

definition validateLeaveFields :: "string option \<Rightarrow> string option \<Rightarrow> error option" where
  "validateLeaveFields lt rs =
     (if (case lt of None \<Rightarrow> False | Some t \<Rightarrow> t \<notin> set leaveTypeEnum) then Some (ValidationError ''leaveType'')
      else if (case rs of None \<Rightarrow> False | Some r \<Rightarrow> trim r = [] \<or> length (trim r) > 500)
        then Some (ValidationError ''reason'')
      else None)"

text \<open>\<^verbatim>\<open>Math.ceil(timeDiff / (1000 * 3600 * 24)) + 1\<close> of the \<^verbatim>\<open>pre("save")\<close> hook.\<close>

definition computeTotalDays :: "date \<Rightarrow> date \<Rightarrow> int" where
  "computeTotalDays start finish = - ((- (finish - start)) div 86400000) + 1"

definition employeeRoles :: "string list" where
  "employeeRoles = [''technician'', ''service_advisor'', ''manager'', ''admin'', ''cashier'']"

text \<open>
  \<^verbatim>\<open>createLeaveRequest\<close>.  \<open>newOid\<close> is the ObjectId the driver gives the new
  document; the unique index on \<^verbatim>\<open>requestId\<close> refuses a generated identifier
  that is already stored.
\<close>

definition createLeaveRequest ::
  "User list \<Rightarrow> LeaveRequest list \<Rightarrow> LeaveBody \<Rightarrow> userIdValue \<Rightarrow> objectId \<Rightarrow> date \<Rightarrow>
   (error + LeaveRequest) \<times> LeaveRequest list" where
  "createLeaveRequest us coll body uid newOid now =
     (case (lb_leaveType body, lb_startDate body, lb_endDate body, lb_reason body) of
        (Some lt, Some sd, Some ed, Some rs) \<Rightarrow>
          if lt = [] \<or> rs = [] then (Inl (CustomAPIError ''All fields are required'' 400), coll)
          else if dateLess sd (ValidDate now) then
            (Inl (CustomAPIError ''Start date cannot be in the past'' 400), coll)
          else if dateLess ed sd then
            (Inl (CustomAPIError ''End date cannot be before start date'' 400), coll)
          else
            (case findUserById us (idOf uid) of
               None \<Rightarrow> (Inl (CustomAPIError ''Employee not found'' 404), coll)
             | Some emp \<Rightarrow>
                 if role emp \<notin> set employeeRoles then
                   (Inl (CustomAPIError ''Only employees can submit leave requests'' 400), coll)
                 else
                   (case (sd, ed) of
                      (ValidDate start, ValidDate finish) \<Rightarrow>
                        (case overlappingLeave coll None (idOf uid) start finish of
                           Some other \<Rightarrow>
                             (Inl (CustomAPIError
                                    ''You already have a leave request for overlapping dates'' 400), coll)
                         | None \<Rightarrow>
                             (case validateLeaveFields (Some lt) (Some rs) of
                                Some e \<Rightarrow> (Inl e, coll)
                              | None \<Rightarrow>
                                  (let rid = generateId ''LR'' (map lr_requestId coll) in
                                   if rid \<in> set (map lr_requestId coll) then
                                     (Inl (DuplicateKeyError ''requestId''), coll)
                                   else
                                     (let d = \<lparr>lr_oid = newOid, lr_requestId = rid, employee = idOf uid,
                                               leaveType = lt, startDate = start, endDate = finish,
                                               lr_reason = trim rs, lr_status = ''pending'',
                                               lr_approvedBy = None, lr_approvedAt = None,
                                               lr_rejectionReason = None,
                                               totalDays = Some (computeTotalDays start finish)\<rparr>
                                      in (Inr d, coll @ [d])))))
                    | _ \<Rightarrow> (Inl (CastError ''date''), coll)))
      | _ \<Rightarrow> (Inl (CustomAPIError ''All fields are required'' 400), coll))"

text \<open>
  The block "Validate dates if provided" of \<^verbatim>\<open>updateLeaveRequest\<close>: the error
  it ends the request with, if any.
\<close>

definition checkUpdatedDates ::
  "LeaveRequest list \<Rightarrow> LeaveRequest \<Rightarrow> objectId \<Rightarrow> userIdValue \<Rightarrow> LeaveBody \<Rightarrow> date \<Rightarrow> error option" where
  "checkUpdatedDates coll leaveRequest i uid body now =
     (if lb_startDate body = None \<and> lb_endDate body = None then None
      else
        (let start = (case lb_startDate body of Some d \<Rightarrow> d | None \<Rightarrow> ValidDate (startDate leaveRequest));
             finish = (case lb_endDate body of Some d \<Rightarrow> d | None \<Rightarrow> ValidDate (endDate leaveRequest))
         in if dateLess start (ValidDate now) then
              Some (CustomAPIError ''Start date cannot be in the past'' 400)
            else if dateLess finish start then
              Some (CustomAPIError ''End date cannot be before start date'' 400)
            else
              (case (start, finish) of
                 (ValidDate s, ValidDate e) \<Rightarrow>
                   (case overlappingLeave coll (Some i) (idOf uid) s e of
                      Some other \<Rightarrow>
                        Some (CustomAPIError ''You already have a leave request for overlapping dates'' 400)
                    | None \<Rightarrow> None)
               | _ \<Rightarrow> Some (CastError ''date''))))"

definition truthy :: "string option \<Rightarrow> string option" where
  "truthy v = (case v of None \<Rightarrow> None | Some s \<Rightarrow> if s = [] then None else Some s)"

definition applyLeaveUpdate :: "LeaveBody \<Rightarrow> LeaveRequest \<Rightarrow> LeaveRequest" where
  "applyLeaveUpdate body d =
     (let d1 = (case truthy (lb_leaveType body) of None \<Rightarrow> d | Some t \<Rightarrow> d\<lparr>leaveType := t\<rparr>);
          d2 = (case lb_startDate body of Some (ValidDate s) \<Rightarrow> d1\<lparr>startDate := s\<rparr> | _ \<Rightarrow> d1);
          d3 = (case lb_endDate body of Some (ValidDate e) \<Rightarrow> d2\<lparr>endDate := e\<rparr> | _ \<Rightarrow> d2);
          d4 = (case truthy (lb_reason body) of None \<Rightarrow> d3 | Some r \<Rightarrow> d3\<lparr>lr_reason := trim r\<rparr>)
      in d4)"

definition updateLeaveRequest ::
  "LeaveRequest list \<Rightarrow> objectId \<Rightarrow> userIdValue \<Rightarrow> LeaveBody \<Rightarrow> date \<Rightarrow>
   (error + LeaveRequest) \<times> LeaveRequest list" where
  "updateLeaveRequest coll i uid body now =
     (case findLeaveRequestById coll i of
        None \<Rightarrow> (Inl (CustomAPIError ''Leave request not found'' 404), coll)
      | Some leaveRequest \<Rightarrow>
          if \<not> strictEqual (employee leaveRequest) uid then
            (Inl (CustomAPIError ''You can only update your own leave requests'' 403), coll)
          else if lr_status leaveRequest \<noteq> ''pending'' then
            (Inl (CustomAPIError ''Cannot update leave request that has been processed'' 400), coll)
          else
            (case checkUpdatedDates coll leaveRequest i uid body now of
               Some e \<Rightarrow> (Inl e, coll)
             | None \<Rightarrow>
                 (case validateLeaveFields (truthy (lb_leaveType body)) (truthy (lb_reason body)) of
                    Some e \<Rightarrow> (Inl e, coll)
                  | None \<Rightarrow>
                      (let d = applyLeaveUpdate body leaveRequest
                       in (Inr d, writeLeaveRequest coll d)))))"

definition approveLeaveRequest ::
  "LeaveRequest list \<Rightarrow> objectId \<Rightarrow> userIdValue \<Rightarrow> date \<Rightarrow> (error + LeaveRequest) \<times> LeaveRequest list" where
  "approveLeaveRequest coll i uid now =
     (case findLeaveRequestById coll i of
        None \<Rightarrow> (Inl (CustomAPIError ''Leave request not found'' 404), coll)
      | Some leaveRequest \<Rightarrow>
          if lr_status leaveRequest \<noteq> ''pending'' then
            (Inl (CustomAPIError ''Leave request has already been processed'' 400), coll)
          else
            (let d = leaveRequest\<lparr>lr_status := ''approved'', lr_approvedBy := Some (idOf uid),
                                  lr_approvedAt := Some now,
                                  totalDays := Some (computeTotalDays (startDate leaveRequest)
                                                                      (endDate leaveRequest))\<rparr>
             in (Inr d, writeLeaveRequest coll d)))"

definition rejectLeaveRequest ::
  "LeaveRequest list \<Rightarrow> objectId \<Rightarrow> userIdValue \<Rightarrow> string option \<Rightarrow> date \<Rightarrow>
   (error + LeaveRequest) \<times> LeaveRequest list" where
  "rejectLeaveRequest coll i uid rejectionReason now =
     (case truthy rejectionReason of
        None \<Rightarrow> (Inl (CustomAPIError ''Rejection reason is required'' 400), coll)
      | Some why \<Rightarrow>
          (case findLeaveRequestById coll i of
             None \<Rightarrow> (Inl (CustomAPIError ''Leave request not found'' 404), coll)
           | Some leaveRequest \<Rightarrow>
               if lr_status leaveRequest \<noteq> ''pending'' then
                 (Inl (CustomAPIError ''Leave request has already been processed'' 400), coll)
               else
                 (let d = leaveRequest\<lparr>lr_status := ''rejected'', lr_approvedBy := Some (idOf uid),
                                       lr_approvedAt := Some now, lr_rejectionReason := Some why,
                                       totalDays := Some (computeTotalDays (startDate leaveRequest)
                                                                           (endDate leaveRequest))\<rparr>
                  in (Inr d, writeLeaveRequest coll d))))"

definition deleteLeaveRequest ::
  "LeaveRequest list \<Rightarrow> objectId \<Rightarrow> userIdValue \<Rightarrow> (error + unit) \<times> LeaveRequest list" where
  "deleteLeaveRequest coll i uid =
     (case findLeaveRequestById coll i of
        None \<Rightarrow> (Inl (CustomAPIError ''Leave request not found'' 404), coll)
      | Some leaveRequest \<Rightarrow>
          if \<not> strictEqual (employee leaveRequest) uid then
            (Inl (CustomAPIError ''You can only delete your own leave requests'' 403), coll)
          else if lr_status leaveRequest \<noteq> ''pending'' then
            (Inl (CustomAPIError ''Cannot delete leave request that has been processed'' 400), coll)
          else (Inr (), filter (\<lambda>d. lr_oid d \<noteq> i) coll))"

text \<open>
  The property of the data model: no two stored requests of one employee that
  are both pending or approved have date ranges with a day in common.
\<close>

definition activeLeave :: "LeaveRequest \<Rightarrow> bool" where
  "activeLeave d = (lr_status d = ''pending'' \<or> lr_status d = ''approved'')"

definition rangesIntersect :: "LeaveRequest \<Rightarrow> LeaveRequest \<Rightarrow> bool" where
  "rangesIntersect a b = (max (startDate a) (startDate b) \<le> min (endDate a) (endDate b))"

definition noOverlappingLeave :: "LeaveRequest list \<Rightarrow> bool" where
  "noOverlappingLeave coll =
     (distinct (map lr_oid coll) \<and>
      (\<forall>a\<in>set coll. \<forall>b\<in>set coll.
         a \<noteq> b \<and> employee a = employee b \<and> activeLeave a \<and> activeLeave b \<longrightarrow> \<not> rangesIntersect a b))"

definition exampleEmployee :: User where
  "exampleEmployee =
     \<lparr>user_oid = ''e1'', userId = ''T00001'', role = ''technician'',
      employeeDetails = Some \<lparr>department = Some ''workshop''\<rparr>\<rparr>"

definition exampleLeave :: LeaveRequest where
  "exampleLeave =
     \<lparr>lr_oid = ''l1'', lr_requestId = ''LR00001'', employee = ''e1'', leaveType = ''annual'',
      startDate = 100, endDate = 200, lr_reason = ''family'', lr_status = ''pending'',
      lr_approvedBy = None, lr_approvedAt = None, lr_rejectionReason = None, totalDays = Some 1\<rparr>"

definition overlappingBody :: LeaveBody where
  "overlappingBody =
     \<lparr>lb_leaveType = Some ''sick'', lb_startDate = Some (ValidDate 150), lb_endDate = Some (ValidDate 250),
      lb_reason = Some ''flu''\<rparr>"

definition laterBody :: LeaveBody where
  "laterBody =
     \<lparr>lb_leaveType = Some ''sick'', lb_startDate = Some (ValidDate 300), lb_endDate = Some (ValidDate 400),
      lb_reason = Some ''flu''\<rparr>"

section \<open>Invoices (models/Invoice.js, invoice controller)\<close>

text \<open>
  Amounts are modelled as integers.  The body of \<^verbatim>\<open>updateInvoice\<close> is the JSON
  object of the request, whose keys matter; a date arrives as a string and is
  read by the date parser of the platform, a parameter \<open>parseDate\<close> of the
  model.  In a position where the schema expects a number, only JSON numbers
  are modelled; other values, which the persistence layer would try to coerce,
  are answered with a cast error.
\<close>

record InvoiceItem =
  ii_description :: string
  ii_quantity :: int
  ii_unitPrice :: int
  ii_total :: int

record Invoice =
  inv_oid :: objectId
  invoiceId :: string
  inv_booking :: objectId
  inv_customer :: objectId
  inv_items :: "InvoiceItem list"
  laborCharges :: int
  subtotal :: int
  tax :: int
  discount :: int
  total :: int
  inv_status :: string
  paymentMethod :: "string option"
  paidAt :: "date option"
  inv_createdBy :: objectId
  inv_notes :: "string option"

definition findInvoiceById :: "Invoice list \<Rightarrow> objectId \<Rightarrow> Invoice option" where
  "findInvoiceById coll i = find (\<lambda>d. inv_oid d = i) coll"

definition writeInvoice :: "Invoice list \<Rightarrow> Invoice \<Rightarrow> Invoice list" where
  "writeInvoice coll d = map (\<lambda>x. if inv_oid x = inv_oid d then d else x) coll"

definition invoiceStatusEnum :: "string list" where
  "invoiceStatusEnum = [''draft'', ''pending'', ''paid'', ''cancelled'']"

definition paymentMethodEnum :: "string list" where
  "paymentMethodEnum = [''cash'', ''card'', ''bank_transfer'', ''online'']"

subsection \<open>updateInvoiceStatus\<close>


text \<open>
  \<^verbatim>\<open>invoice.save()\<close>: the paths the controller assigned are validated when their
  value differs from the stored one.
\<close>

definition saveInvoice :: "Invoice list \<Rightarrow> Invoice \<Rightarrow> Invoice \<Rightarrow> (error + Invoice) \<times> Invoice list" where
  "saveInvoice coll stored d =
     (if paymentMethod d \<noteq> paymentMethod stored
         \<and> (case paymentMethod d of None \<Rightarrow> False | Some m \<Rightarrow> m \<notin> set paymentMethodEnum)
        then (Inl (ValidationError ''paymentMethod''), coll)
      else if inv_status d \<noteq> inv_status stored \<and> inv_status d \<notin> set invoiceStatusEnum
        then (Inl (ValidationError ''status''), coll)
      else (Inr d, writeInvoice coll d))"


subsection \<open>updateInvoice\<close>


















section \<open>Properties\<close>

subsection \<open>Stock adjustment of a single item\<close>

lemma writeItem_nonneg:
  "\<forall>x\<in>set coll. 0 \<le> currentStock x \<Longrightarrow> 0 \<le> currentStock d \<Longrightarrow>
   \<forall>x\<in>set (writeItem coll d). 0 \<le> currentStock x"
  by (auto simp: writeItem_def)










subsection \<open>Bulk stock update\<close>

lemma bulkResponse_errors: "getProp (bulkResponse rs es) ''errors'' = Some (JArr (map errorJson es))"
  by (simp add: bulkResponse_def objectLiteral_def getProp_def)

lemma bulkResponse_processed: "getProp (bulkResponse rs es) ''processed'' = Some (JNum (int (length rs)))"
  by (simp add: bulkResponse_def objectLiteral_def getProp_def)

lemma bulkLoop_lengths:
  "bulkLoop lines coll rs es = (coll', rs', es') \<Longrightarrow> length rs' + length es' = length rs + length es + length lines"
  by (induction lines arbitrary: coll rs es) (auto split: sum.splits)

lemma bulkUpdateStock_partial_success:
  assumes "lines \<noteq> []"
  shows "\<exists>coll' rs es. bulkUpdateStock coll (Some lines) = (Inr (bulkResponse rs es), coll')
           \<and> bulkLoop lines coll [] [] = (coll', rs, es)
           \<and> length rs + length es = length lines
           \<and> getProp (bulkResponse rs es) ''processed'' = Some (JNum (int (length rs)))
           \<and> getProp (bulkResponse rs es) ''errors'' = Some (JArr (map errorJson es))"
proof -
  obtain coll' rs es where loop: "bulkLoop lines coll [] [] = (coll', rs, es)"
    by (cases "bulkLoop lines coll [] []") auto
  have len: "length rs + length es = length lines"
    using bulkLoop_lengths[OF loop] by simp
  have "bulkUpdateStock coll (Some lines) = (Inr (bulkResponse rs es), coll')"
    using assms loop by (simp add: bulkUpdateStock_def)
  then show ?thesis
    using loop len bulkResponse_errors bulkResponse_processed by blast
qed

text \<open>
  Claim C8.  Two lines, \<^verbatim>\<open>{itemId: A, operation: add, quantity: 5}\<close> and
  \<^verbatim>\<open>{itemId: B, operation: subtract, quantity: 999}\<close> with 10 of B in stock: the
  first line is committed, the second contributes the entry
  \<^verbatim>\<open>{itemId: B, error: "Insufficient stock"}\<close>, and \<^verbatim>\<open>processed\<close> is 1.  The
  key \<^verbatim>\<open>errors\<close> of the response, however, holds the array of error entries:
  the count \<^verbatim>\<open>errors.length\<close> written under the same key is overwritten by the
  array, so the response carries no number of failed lines.
\<close>

theorem bulkUpdateStock_errors_key_holds_array:
  "bulkUpdateStock
     [\<lparr>item_oid = ''a'', itemId = ''A'', item_name = ''Oil'', currentStock = 1, minimumStock = 2\<rparr>,
      \<lparr>item_oid = ''b'', itemId = ''B'', item_name = ''Bolt'', currentStock = 10, minimumStock = 2\<rparr>]
     (Some [\<lparr>line_itemId = Some ''A'', line_quantity = Some 5, line_operation = Some ''add'', line_reason = None\<rparr>,
            \<lparr>line_itemId = Some ''B'', line_quantity = Some 999, line_operation = Some ''subtract'',
              line_reason = None\<rparr>])
   = (Inr [(''success'', JBool True),
           (''message'', JStr ''Bulk stock update completed''),
           (''processed'', JNum 1),
           (''errors'', JArr [JObj [(''itemId'', JStr ''B''), (''error'', JStr ''Insufficient stock'')]]),
           (''results'', JArr [JObj [(''itemId'', JStr ''A''), (''name'', JStr ''Oil''),
                                     (''operation'', JStr ''add''), (''quantity'', JNum 5),
                                     (''newStock'', JNum 6), (''isLowStock'', JBool False)]])],
      [\<lparr>item_oid = ''a'', itemId = ''A'', item_name = ''Oil'', currentStock = 6, minimumStock = 2\<rparr>,
       \<lparr>item_oid = ''b'', itemId = ''B'', item_name = ''Bolt'', currentStock = 10, minimumStock = 2\<rparr>])"
  by (simp add: bulkUpdateStock_def bulkLine_def findItemByItemId_def toUpperCase_def toUpperChar_def
        saveItem_def writeItem_def bulkResponse_def objectLiteral_def resultJson_def errorJson_def)

subsection \<open>Booking status transitions\<close>

lemma findBookingById_oid: "findBookingById coll i = Some b \<Longrightarrow> booking_oid b = i \<and> b \<in> set coll"
  by (induction coll) (auto simp: findBookingById_def split: if_splits)

lemma findBookingById_writeBooking:
  "findBookingById coll i = Some b \<Longrightarrow> booking_oid b' = i \<Longrightarrow> findBookingById (writeBooking coll b') i = Some b'"
  by (induction coll) (auto simp: findBookingById_def writeBooking_def split: if_splits)

lemma allowed_lookup:
  assumes "cur \<in> set validStatuses"
  shows "\<exists>allowed. map_of allowedTransitions cur = Some allowed \<and> (req \<in> set allowed) = specBookingTransition cur req"
  using assms by (auto simp: validStatuses_def allowedTransitions_def specBookingTransition_def)

lemma specBookingTransition_valid: "specBookingTransition cur req \<Longrightarrow> req \<in> set validStatuses \<and> req \<noteq> []"
  by (auto simp: specBookingTransition_def validStatuses_def)

lemma updateBookingStatus_checked_result:
  assumes found: "findBookingById coll bid = Some b"
      and stored: "booking_status b \<in> set validStatuses"
  shows "updateBookingStatus_checked coll bid \<lparr>body_status = Some st, body_note = n, body_notes = m\<rparr> u now =
     (if st = [] then (Inl (CustomAPIError ''Status is required'' 400), coll)
      else if st \<notin> set validStatuses then (Inl (CustomAPIError ''Invalid status'' 400), coll)
      else if \<not> specBookingTransition (booking_status b) st then
        (Inl (CustomAPIError (''Cannot change status from '' @ booking_status b @ '' to '' @ st) 400), coll)
      else
        (let b' = b\<lparr>booking_status := st,
                     booking_completedAt := (if st = ''completed'' then Some now else booking_completedAt b),
                     booking_notes := booking_notes b @
                        [\<lparr>note_text = (case n of None \<Rightarrow> ''Status updated to '' @ st
                                       | Some m \<Rightarrow> if m = [] then ''Status updated to '' @ st else m),
                          note_createdBy = u, note_createdAt = now\<rparr>]\<rparr>
         in (Inr b', writeBooking coll b')))"
proof -
  obtain allowed where al: "map_of allowedTransitions (booking_status b) = Some allowed"
      and mem: "(st \<in> set allowed) = specBookingTransition (booking_status b) st"
    using allowed_lookup[OF stored] by blast
  show ?thesis
    by (simp add: updateBookingStatus_checked_def found al mem Let_def)
qed


lemma updateBookingStatus_checked_chain:
  assumes found: "findBookingById coll bid = Some b"
      and pending: "booking_status b = ''pending''"
      and fresh: "booking_completedAt b = None"
  shows "\<exists>b1 c1 b2 c2 b3 c3.
      updateBookingStatus_checked coll bid \<lparr>body_status = Some ''inspecting'', body_note = None, body_notes = None\<rparr> u t1 = (Inr b1, c1)
    \<and> booking_status b1 = ''inspecting'' \<and> booking_completedAt b1 = None
    \<and> updateBookingStatus_checked c1 bid \<lparr>body_status = Some ''working'', body_note = None, body_notes = None\<rparr> u t2 = (Inr b2, c2)
    \<and> booking_status b2 = ''working'' \<and> booking_completedAt b2 = None
    \<and> updateBookingStatus_checked c2 bid \<lparr>body_status = Some ''completed'', body_note = None, body_notes = None\<rparr> u t3 = (Inr b3, c3)
    \<and> booking_status b3 = ''completed'' \<and> booking_completedAt b3 = Some t3"
proof -
  have oid: "booking_oid b = bid" using findBookingById_oid[OF found] by simp
  define b1 where "b1 = b\<lparr>booking_status := ''inspecting'',
      booking_completedAt := booking_completedAt b,
      booking_notes := booking_notes b @
        [\<lparr>note_text = ''Status updated to '' @ ''inspecting'', note_createdBy = u, note_createdAt = t1\<rparr>]\<rparr>"
  define c1 where "c1 = writeBooking coll b1"
  have s1: "updateBookingStatus_checked coll bid \<lparr>body_status = Some ''inspecting'', body_note = None, body_notes = None\<rparr> u t1 = (Inr b1, c1)"
    using updateBookingStatus_checked_result
            [OF found, where st = "''inspecting''" and n = None and m = None and u = u and now = t1]
    by (simp add: pending validStatuses_def specBookingTransition_def b1_def c1_def Let_def)
  have f1: "findBookingById c1 bid = Some b1"
    unfolding c1_def by (rule findBookingById_writeBooking[OF found]) (simp add: b1_def oid)
  define b2 where "b2 = b1\<lparr>booking_status := ''working'',
      booking_completedAt := booking_completedAt b1,
      booking_notes := booking_notes b1 @
        [\<lparr>note_text = ''Status updated to '' @ ''working'', note_createdBy = u, note_createdAt = t2\<rparr>]\<rparr>"
  define c2 where "c2 = writeBooking c1 b2"
  have st1: "booking_status b1 = ''inspecting''" by (simp add: b1_def)
  have s2: "updateBookingStatus_checked c1 bid \<lparr>body_status = Some ''working'', body_note = None, body_notes = None\<rparr> u t2 = (Inr b2, c2)"
    using updateBookingStatus_checked_result
            [OF f1, where st = "''working''" and n = None and m = None and u = u and now = t2]
    by (simp add: st1 validStatuses_def specBookingTransition_def b2_def c2_def Let_def)
  have f2: "findBookingById c2 bid = Some b2"
    unfolding c2_def by (rule findBookingById_writeBooking[OF f1]) (simp add: b2_def b1_def oid)
  define b3 where "b3 = b2\<lparr>booking_status := ''completed'',
      booking_completedAt := Some t3,
      booking_notes := booking_notes b2 @
        [\<lparr>note_text = ''Status updated to '' @ ''completed'', note_createdBy = u, note_createdAt = t3\<rparr>]\<rparr>"
  define c3 where "c3 = writeBooking c2 b3"
  have st2: "booking_status b2 = ''working''" by (simp add: b2_def)
  have s3: "updateBookingStatus_checked c2 bid \<lparr>body_status = Some ''completed'', body_note = None, body_notes = None\<rparr> u t3 = (Inr b3, c3)"
    using updateBookingStatus_checked_result
            [OF f2, where st = "''completed''" and n = None and m = None and u = u and now = t3]
    by (simp add: st2 validStatuses_def specBookingTransition_def b3_def c3_def Let_def)
  have "booking_completedAt b1 = None" "booking_completedAt b2 = None"
       "booking_status b3 = ''completed''" "booking_completedAt b3 = Some t3"
    by (simp_all add: b1_def b2_def b3_def fresh)
  with s1 s2 s3 st1 st2 show ?thesis by blast
qed

lemma updateBookingStatus_direct_any:
  assumes found: "findBookingById coll bid = Some b"
      and valid: "st \<in> set validStatuses"
  shows "\<exists>r. fst (updateBookingStatus_direct coll bid \<lparr>body_status = Some st, body_note = n, body_notes = m\<rparr> u now) = Inr r
            \<and> resp_status r = st"
proof -
  have "st \<noteq> []" using valid by (auto simp: validStatuses_def)
  then show ?thesis
    using found valid
    by (simp add: updateBookingStatus_direct_def Let_def split: option.split)
qed

text \<open>
  Claim C1.  The status update of \<^verbatim>\<open>bookingController.js\<close> applied to a pending
  booking with the requested status \<^verbatim>\<open>working\<close> succeeds and stores the status
  \<^verbatim>\<open>working\<close>: it has no transition check.  (The status update of the other
  booking controller follows the table, see \<open>updateBookingStatus_checked_result\<close>
  and \<open>updateBookingStatus_checked_chain\<close>.)
\<close>

theorem updateBookingStatus_direct_pending_to_working:
  "updateBookingStatus_direct
     [\<lparr>booking_oid = ''b1'', bookingId = ''BK00001'', booking_status = ''pending'',
       booking_completedAt = None, booking_notes = []\<rparr>]
     ''b1'' \<lparr>body_status = Some ''working'', body_note = None, body_notes = None\<rparr> ''u1'' 5
   = (Inr \<lparr>resp_bookingId = ''BK00001'', resp_status = ''working'', resp_completedAt = None\<rparr>,
      [\<lparr>booking_oid = ''b1'', bookingId = ''BK00001'', booking_status = ''working'',
        booking_completedAt = None, booking_notes = []\<rparr>])"
  by (simp add: updateBookingStatus_direct_def validStatuses_def findBookingById_def writeBooking_def)

subsection \<open>Goods requests: approval and release\<close>

lemma findGoodsRequestById_oid:
  "findGoodsRequestById coll i = Some g \<Longrightarrow> gr_oid g = i \<and> g \<in> set coll"
  by (induction coll) (auto simp: findGoodsRequestById_def split: if_splits)

lemma findGoodsRequestById_write:
  "findGoodsRequestById coll i = Some g \<Longrightarrow> gr_oid g' = i \<Longrightarrow>
   findGoodsRequestById (writeGoodsRequest coll g') i = Some g'"
  by (induction coll) (auto simp: findGoodsRequestById_def writeGoodsRequest_def split: if_splits)






text \<open>
  Claim C4.  \<^verbatim>\<open>releaseGoods\<close> succeeds only for a request whose stored status is
  \<^verbatim>\<open>approved\<close> (and does succeed for such a request when the caller is
  authorized); the request is then stored with status \<^verbatim>\<open>released\<close>.  Whether it
  succeeds or not, the inventory collection, hence the \<^verbatim>\<open>currentStock\<close> of every
  item, is the same before and after.
\<close>

theorem releaseGoods_only_approved_no_stock_change:
  "(\<forall>g'. fst (releaseGoods store i uid r) = Inr g' \<longrightarrow>
       (\<exists>g. findGoodsRequestById (goodsRequests store) i = Some g \<and> gr_status g = ''approved''
            \<and> g' = g\<lparr>gr_status := ''released''\<rparr>
            \<and> findGoodsRequestById (goodsRequests (snd (releaseGoods store i uid r))) i = Some g'))
   \<and> (\<forall>g. inventoryManager (users store) uid r
            \<and> findGoodsRequestById (goodsRequests store) i = Some g \<and> gr_status g = ''approved''
          \<longrightarrow> fst (releaseGoods store i uid r) = Inr (g\<lparr>gr_status := ''released''\<rparr>))
   \<and> inventory (snd (releaseGoods store i uid r)) = inventory store"
proof (intro conjI allI impI)
  fix g'
  assume ok: "fst (releaseGoods store i uid r) = Inr g'"
  then obtain g where found: "findGoodsRequestById (goodsRequests store) i = Some g"
      and appr: "gr_status g = ''approved''" and g': "g' = g\<lparr>gr_status := ''released''\<rparr>"
      and snd: "snd (releaseGoods store i uid r)
                  = store\<lparr>goodsRequests := writeGoodsRequest (goodsRequests store) g'\<rparr>"
    by (auto simp: releaseGoods_def Let_def split: if_splits option.splits)
  have oid: "gr_oid g' = i" using findGoodsRequestById_oid[OF found] g' by simp
  have "findGoodsRequestById (goodsRequests (snd (releaseGoods store i uid r))) i = Some g'"
    unfolding snd using findGoodsRequestById_write[OF found oid] by simp
  with found appr g'
  show "\<exists>g. findGoodsRequestById (goodsRequests store) i = Some g \<and> gr_status g = ''approved''
            \<and> g' = g\<lparr>gr_status := ''released''\<rparr>
            \<and> findGoodsRequestById (goodsRequests (snd (releaseGoods store i uid r))) i = Some g'"
    by blast
next
  fix g
  assume "inventoryManager (users store) uid r
            \<and> findGoodsRequestById (goodsRequests store) i = Some g \<and> gr_status g = ''approved''"
  then show "fst (releaseGoods store i uid r) = Inr (g\<lparr>gr_status := ''released''\<rparr>)"
    by (simp add: releaseGoods_def Let_def)
next
  show "inventory (snd (releaseGoods store i uid r)) = inventory store"
    by (simp add: releaseGoods_def Let_def split: option.split)
qed

theorem releaseGoods_only_approved_no_stock_change_witness:
  "fst (releaseGoods approvedStore ''g1'' ''u1'' ''manager'') = Inr (approvedRequest\<lparr>gr_status := ''released''\<rparr>)
   \<and> inventory (snd (releaseGoods approvedStore ''g1'' ''u1'' ''manager'')) = [exampleItem\<lparr>currentStock := 8\<rparr>]"
proof -
  have pre: "inventoryManager (users approvedStore) ''u1'' ''manager''
            \<and> findGoodsRequestById (goodsRequests approvedStore) ''g1'' = Some approvedRequest
            \<and> gr_status approvedRequest = ''approved''"
    by (simp add: inventoryManager_def approvedStore_def approvedRequest_def exampleRequest_def
          findGoodsRequestById_def)
  note rel = releaseGoods_only_approved_no_stock_change[of approvedStore "''g1''" "''u1''" "''manager''"]
  from rel have "\<forall>g. inventoryManager (users approvedStore) ''u1'' ''manager''
            \<and> findGoodsRequestById (goodsRequests approvedStore) ''g1'' = Some g \<and> gr_status g = ''approved''
          \<longrightarrow> fst (releaseGoods approvedStore ''g1'' ''u1'' ''manager'') = Inr (g\<lparr>gr_status := ''released''\<rparr>)"
    by (rule conjunct1[OF conjunct2])
  with pre have ok: "fst (releaseGoods approvedStore ''g1'' ''u1'' ''manager'')
                       = Inr (approvedRequest\<lparr>gr_status := ''released''\<rparr>)"
    by blast
  from rel have "inventory (snd (releaseGoods approvedStore ''g1'' ''u1'' ''manager'')) = inventory approvedStore"
    by (rule conjunct2[OF conjunct2])
  then have "inventory (snd (releaseGoods approvedStore ''g1'' ''u1'' ''manager'')) = [exampleItem\<lparr>currentStock := 8\<rparr>]"
    by (simp add: approvedStore_def)
  with ok show ?thesis by (rule conjI)
qed

subsection \<open>Job status updates\<close>

lemma findJobById_oid: "findJobById coll i = Some j \<Longrightarrow> job_oid j = i \<and> j \<in> set coll"
  by (induction coll) (auto simp: findJobById_def split: if_splits)

lemma findJobById_writeJob:
  "findJobById coll i = Some j \<Longrightarrow> job_oid j' = i \<Longrightarrow> findJobById (writeJob coll j') i = Some j'"
  by (induction coll) (auto simp: findJobById_def writeJob_def split: if_splits)

lemma foldl_add_shift:
  "foldl (\<lambda>total entry. total + loggedOrZero entry) a entries
     = a + sum_list (map loggedOrZero entries)"
  by (induction entries arbitrary: a) (simp_all add: add.assoc)

lemma workLogTotal_sum: "workLogTotal entries = sum_list (map loggedOrZero entries)"
  by (simp add: workLogTotal_def foldl_add_shift)

lemma pre_save_fields:
  "job_oid (JobSchema_pre_save m now job) = job_oid job"
  "job_status (JobSchema_pre_save m now job) = job_status job"
  "workLog (JobSchema_pre_save m now job) = workLog job"
  "actualHours (JobSchema_pre_save m now job)
     = (if workLog job = [] then actualHours job else workLogTotal (workLog job))"
  by (simp_all add: JobSchema_pre_save_def Let_def)

lemma pre_save_startedAt:
  "startedAt (JobSchema_pre_save m now job)
     = (if m \<and> job_status job = ''working'' \<and> startedAt job = None then Some now else startedAt job)"
  by (simp add: JobSchema_pre_save_def Let_def)

lemma pre_save_completedAt:
  "completedAt (JobSchema_pre_save m now job)
     = (if m \<and> job_status job = ''completed'' \<and> completedAt job = None then Some now else completedAt job)"
  by (simp add: JobSchema_pre_save_def Let_def)

lemma assignNotes_fields:
  "job_oid (assignNotes n j) = job_oid j" "job_status (assignNotes n j) = job_status j"
  "workLog (assignNotes n j) = workLog j" "actualHours (assignNotes n j) = actualHours j"
  "startedAt (assignNotes n j) = startedAt j" "completedAt (assignNotes n j) = completedAt j"
  by (simp_all add: assignNotes_def split: option.split)

lemma technician_lookup:
  "(case map_of technicianTransitions cur of None \<Rightarrow> False | Some allowed \<Rightarrow> req \<in> set allowed)
     = specJobTransition cur req"
  by (auto simp: technicianTransitions_def specJobTransition_def)


lemma updateJobStatus_unfold:
  assumes found: "findJobById coll i = Some job"
  shows "updateJobStatus coll i \<lparr>js_status = st, js_notes = n\<rparr> uid r now =
     (if r = ''technician'' \<and> \<not> isAssigned job uid then
        (Inl (CustomAPIError ''Access denied. Job not assigned to you'' 403), coll)
      else if r = ''technician'' \<and> \<not> specJobTransition (job_status job) st then
        (Inl (CustomAPIError (''Invalid status transition from '' @ job_status job @ '' to '' @ st) 400), coll)
      else if st \<noteq> job_status job \<and> st \<notin> set jobStatusEnum then
        (Inl (ValidationError ''status''), coll)
      else
        (Inr (JobSchema_pre_save (st \<noteq> job_status job) now (assignNotes n (job\<lparr>job_status := st\<rparr>))),
         writeJob coll (JobSchema_pre_save (st \<noteq> job_status job) now (assignNotes n (job\<lparr>job_status := st\<rparr>)))))"
  by (simp add: updateJobStatus_def found technician_lookup saveJob_def Let_def assignNotes_def
        split: option.split)


text \<open>
  Claim C6, as amended.  After a successful status update the job carries the
  requested status.  When the update moves the job into \<^verbatim>\<open>working\<close>,
  \<^verbatim>\<open>startedAt\<close> is the current time if it was unset and its earlier value
  otherwise; when it moves the job into \<^verbatim>\<open>completed\<close>, the same holds for
  \<^verbatim>\<open>completedAt\<close>; in all other cases both timestamps are unchanged.
  \<^verbatim>\<open>actualHours\<close> is the sum of the work-log hours when the work log is not
  empty, and the stored value when it is empty.
\<close>

theorem updateJobStatus_stamps_timestamps:
  assumes found: "findJobById coll i = Some job"
      and ok: "fst (updateJobStatus coll i \<lparr>js_status = st, js_notes = n\<rparr> uid r now) = Inr job'"
  shows "job_status job' = st
       \<and> (if st = ''working'' \<and> job_status job \<noteq> ''working''
          then startedAt job' = Some (case startedAt job of None \<Rightarrow> now | Some t \<Rightarrow> t)
          else startedAt job' = startedAt job)
       \<and> (if st = ''completed'' \<and> job_status job \<noteq> ''completed''
          then completedAt job' = Some (case completedAt job of None \<Rightarrow> now | Some t \<Rightarrow> t)
          else completedAt job' = completedAt job)
       \<and> actualHours job' = (if workLog job = [] then actualHours job
                              else sum_list (map loggedOrZero (workLog job)))
       \<and> findJobById (snd (updateJobStatus coll i \<lparr>js_status = st, js_notes = n\<rparr> uid r now)) i = Some job'"
proof -
  define saved where
    "saved = JobSchema_pre_save (st \<noteq> job_status job) now (assignNotes n (job\<lparr>job_status := st\<rparr>))"
  note unfold = updateJobStatus_unfold[OF found, of st n uid r now, folded saved_def]
  have passed: "\<not> (r = ''technician'' \<and> \<not> isAssigned job uid)
              \<and> \<not> (r = ''technician'' \<and> \<not> specJobTransition (job_status job) st)
              \<and> \<not> (st \<noteq> job_status job \<and> st \<notin> set jobStatusEnum)"
    using ok unfolding unfold by (simp split: if_splits)
  have res: "updateJobStatus coll i \<lparr>js_status = st, js_notes = n\<rparr> uid r now = (Inr saved, writeJob coll saved)"
    unfolding unfold using passed by simp
  then have eq: "job' = saved" using ok by simp
  have oid: "job_oid saved = i"
    using findJobById_oid[OF found] by (simp add: saved_def pre_save_fields assignNotes_fields)
  have stored: "findJobById (writeJob coll saved) i = Some saved"
    by (rule findJobById_writeJob[OF found oid])
  have status: "job_status saved = st"
    by (simp add: saved_def pre_save_fields assignNotes_fields)
  have started: "startedAt saved =
      (if st \<noteq> job_status job \<and> st = ''working'' \<and> startedAt job = None then Some now else startedAt job)"
    by (simp add: saved_def pre_save_startedAt assignNotes_fields)
  have completed: "completedAt saved =
      (if st \<noteq> job_status job \<and> st = ''completed'' \<and> completedAt job = None then Some now
       else completedAt job)"
    by (simp add: saved_def pre_save_completedAt assignNotes_fields)
  have hours: "actualHours saved = (if workLog job = [] then actualHours job
                              else sum_list (map loggedOrZero (workLog job)))"
    by (simp add: saved_def pre_save_fields assignNotes_fields workLogTotal_sum)
  have s1: "if st = ''working'' \<and> job_status job \<noteq> ''working''
          then startedAt saved = Some (case startedAt job of None \<Rightarrow> now | Some t \<Rightarrow> t)
          else startedAt saved = startedAt job"
    unfolding started by (cases "startedAt job") auto
  have s2: "if st = ''completed'' \<and> job_status job \<noteq> ''completed''
          then completedAt saved = Some (case completedAt job of None \<Rightarrow> now | Some t \<Rightarrow> t)
          else completedAt saved = completedAt job"
    unfolding completed by (cases "completedAt job") auto
  show ?thesis
    unfolding eq res using status s1 s2 hours stored by simp
qed

theorem updateJobStatus_stamps_timestamps_witness:
  "findJobById [loggedJob] ''j2'' = Some loggedJob
   \<and> fst (updateJobStatus [loggedJob] ''j2'' \<lparr>js_status = ''completed'', js_notes = None\<rparr> (IdObject ''m1'') ''manager'' 100)
       = Inr (loggedJob\<lparr>job_status := ''completed'', actualHours := 7 / 2, labourCost := 175,
                       completedAt := Some 100\<rparr>)
   \<and> completedAt (loggedJob\<lparr>job_status := ''completed'', actualHours := 7 / 2, labourCost := 175,
                       completedAt := Some 100\<rparr>) = Some 100
   \<and> actualHours (loggedJob\<lparr>job_status := ''completed'', actualHours := 7 / 2, labourCost := 175,
                       completedAt := Some 100\<rparr>) = sum_list (map loggedOrZero (workLog loggedJob))"
proof -
  have found: "findJobById [loggedJob] ''j2'' = Some loggedJob"
    by (simp add: findJobById_def loggedJob_def)
  have ok: "fst (updateJobStatus [loggedJob] ''j2'' \<lparr>js_status = ''completed'', js_notes = None\<rparr> (IdObject ''m1'') ''manager'' 100)
       = Inr (loggedJob\<lparr>job_status := ''completed'', actualHours := 7 / 2, labourCost := 175,
                       completedAt := Some 100\<rparr>)"
    by (simp add: updateJobStatus_def findJobById_def loggedJob_def assignNotes_def saveJob_def
          jobStatusEnum_def JobSchema_pre_save_def workLogTotal_def loggedOrZero_def Let_def)
  have wl: "workLog loggedJob \<noteq> []" and st: "job_status loggedJob \<noteq> ''completed''"
       and ca: "completedAt loggedJob = None"
    by (simp_all add: loggedJob_def)
  from updateJobStatus_stamps_timestamps[OF found ok] wl st ca
  have "completedAt (loggedJob\<lparr>job_status := ''completed'', actualHours := 7 / 2, labourCost := 175,
                       completedAt := Some 100\<rparr>) = Some 100
      \<and> actualHours (loggedJob\<lparr>job_status := ''completed'', actualHours := 7 / 2, labourCost := 175,
                       completedAt := Some 100\<rparr>) = sum_list (map loggedOrZero (workLog loggedJob))"
    by simp
  with found ok show ?thesis by simp
qed

text \<open>
  Claim C6 as stated fails for a job with an empty work log: the job of the
  example has \<^verbatim>\<open>actualHours = 7\<close> stored and no work-log entry; a manager
  completes it, and \<^verbatim>\<open>actualHours\<close> is still 7, not the sum (zero) of the
  work-log hours.
\<close>

theorem updateJobStatus_actualHours_counterexample:
  "fst (updateJobStatus [exampleJob] ''j1'' \<lparr>js_status = ''completed'', js_notes = None\<rparr> (IdObject ''m1'') ''manager'' 100)
     = Inr (exampleJob\<lparr>job_status := ''completed'', labourCost := 350, completedAt := Some 100\<rparr>)
   \<and> actualHours (exampleJob\<lparr>job_status := ''completed'', labourCost := 350, completedAt := Some 100\<rparr>)
       \<noteq> sum_list (map loggedOrZero
             (workLog (exampleJob\<lparr>job_status := ''completed'', labourCost := 350, completedAt := Some 100\<rparr>)))"
  by (simp add: updateJobStatus_def findJobById_def exampleJob_def assignNotes_def saveJob_def
        jobStatusEnum_def JobSchema_pre_save_def Let_def)




subsection \<open>Identifier generation\<close>

lemma replicate_pad: "replicate (numeral k) c = c # replicate (pred_numeral k) c"
  by (simp add: numeral_eq_Suc)

lemma generateItemId_after_41: "generateItemId [''ITM00001'', ''ITM00041'', ''ITM00007''] = ''ITM00042''"
  by (simp add: generateItemId_def generateId_def nextNumber_def greatest_def startsWith_def
      trailingDigits_def isDigit_def parseInt_def digitValue_def padStart_def digitChar_def replicate_pad)

lemma greatest_None: "greatest ss = None \<longleftrightarrow> ss = []"
  by (cases ss) (simp_all add: greatest_def)

lemma greatest_filter_None: "greatest (filter P ids) = None \<longleftrightarrow> (\<forall>s\<in>set ids. \<not> P s)"
  by (simp add: greatest_None filter_empty_conv)

lemma generateId_first:
  assumes "\<forall>s\<in>set ids. \<not> startsWith s prefix"
  shows "generateId prefix ids = prefix @ ''00001''"
proof -
  have "greatest (filter (\<lambda>s. startsWith s prefix) ids) = None"
    using assms by (simp add: greatest_None filter_empty_conv)
  then show ?thesis
    by (simp add: generateId_def nextNumber_def padStart_def digitChar_def replicate_pad)
qed

lemma generateId_next:
  assumes "greatest (filter (\<lambda>s. startsWith s prefix) ids) = Some lastId"
      and "trailingDigits lastId = Some ds"
  shows "generateId prefix ids = prefix @ padStart 5 (CHR ''0'') (showNat (parseInt ds + 1))"
  using assms by (simp add: generateId_def nextNumber_def)


lemma stringLess_irrefl: "\<not> stringLess s s"
  by (induction s) auto

lemma stringLess_trans: "stringLess a b \<Longrightarrow> stringLess b c \<Longrightarrow> stringLess a c"
proof (induction a b arbitrary: c rule: stringLess.induct)
  case 1
  then show ?case by simp
next
  case (2 y ys)
  then show ?case by (cases c) auto
next
  case (3 x xs)
  then show ?case by simp
next
  case (4 x xs y ys)
  then show ?case by (cases c) (auto split: if_splits)
qed

lemma foldl_greatest:
  assumes "\<forall>s\<in>set seen. \<not> stringLess m s" and "m \<in> set seen"
  shows "foldl (\<lambda>m s. if stringLess m s then s else m) m xs \<in> set seen \<union> set xs
       \<and> (\<forall>s\<in>set seen \<union> set xs. \<not> stringLess (foldl (\<lambda>m s. if stringLess m s then s else m) m xs) s)"
  using assms
proof (induction xs arbitrary: m seen)
  case Nil
  then show ?case by simp
next
  case (Cons x xs)
  let ?m' = "if stringLess m x then x else m"
  have "\<forall>s\<in>set (x # seen). \<not> stringLess ?m' s"
    using Cons.prems(1) stringLess_trans stringLess_irrefl by auto
  moreover have "?m' \<in> set (x # seen)" using Cons.prems(2) by simp
  ultimately have "foldl (\<lambda>m s. if stringLess m s then s else m) ?m' xs \<in> set (x # seen) \<union> set xs
       \<and> (\<forall>s\<in>set (x # seen) \<union> set xs.
             \<not> stringLess (foldl (\<lambda>m s. if stringLess m s then s else m) ?m' xs) s)"
    by (rule Cons.IH)
  then show ?case by simp
qed

lemma greatest_is_maximal:
  assumes "greatest ss = Some m"
  shows "m \<in> set ss \<and> (\<forall>s\<in>set ss. \<not> stringLess m s)"
proof (cases ss)
  case Nil
  with assms show ?thesis by (simp add: greatest_def)
next
  case (Cons x xs)
  have "foldl (\<lambda>m s. if stringLess m s then s else m) x xs \<in> set [x] \<union> set xs
       \<and> (\<forall>s\<in>set [x] \<union> set xs. \<not> stringLess (foldl (\<lambda>m s. if stringLess m s then s else m) x xs) s)"
    by (rule foldl_greatest) (simp_all add: stringLess_irrefl)
  with assms Cons show ?thesis by (simp add: greatest_def)
qed


lemma stringLess_total: "\<not> stringLess a b \<Longrightarrow> \<not> stringLess b a \<Longrightarrow> a = b"
proof (induction a b rule: stringLess.induct)
  case (4 x xs y ys)
  then show ?case by (auto simp: not_less)
qed simp_all

lemma generateId_after_maximal:
  assumes mem: "lastId \<in> set ids" and pre: "startsWith lastId prefix"
      and maxi: "\<forall>s\<in>set ids. startsWith s prefix \<longrightarrow> \<not> stringLess lastId s"
      and digits: "trailingDigits lastId = Some ds"
  shows "generateId prefix ids = prefix @ padStart 5 (CHR ''0'') (showNat (parseInt ds + 1))"
proof -
  have "filter (\<lambda>s. startsWith s prefix) ids \<noteq> []"
    using mem pre by (auto simp: filter_empty_conv)
  then obtain m where g: "greatest (filter (\<lambda>s. startsWith s prefix) ids) = Some m"
    using greatest_None by (cases "greatest (filter (\<lambda>s. startsWith s prefix) ids)") auto
  from greatest_is_maximal[OF g]
  have m: "m \<in> set ids" "startsWith m prefix"
      and top: "\<forall>s\<in>set ids. startsWith s prefix \<longrightarrow> \<not> stringLess m s"
    by auto
  have "\<not> stringLess lastId m" using maxi m by blast
  moreover have "\<not> stringLess m lastId" using top mem pre by blast
  ultimately have "m = lastId" by (rule stringLess_total[symmetric])
  with g digits show ?thesis by (simp add: generateId_next)
qed

text \<open>
  Claim C7.  The identifiers that begin with a prefix are what the generator
  looks at: with none it yields \<open>prefix00001\<close> (\<open>generateId_first\<close>), and
  otherwise one more than the trailing number of the greatest of them
  (\<open>generateId_after_maximal\<close>).  For users the prefix of customers, \<^verbatim>\<open>C\<close>,
  is also the beginning of every cashier identifier \<^verbatim>\<open>CS...\<close>, and a cashier
  identifier is greater than every customer identifier.  With the customers
  \<^verbatim>\<open>C00001\<close>, \<^verbatim>\<open>C00002\<close> and the cashier \<^verbatim>\<open>CS00001\<close> stored, the next customer
  identifier is \<^verbatim>\<open>C00002\<close>, which is taken, not \<^verbatim>\<open>C00003\<close>; with only the
  cashier \<^verbatim>\<open>CS00007\<close> stored, the first customer identifier is \<^verbatim>\<open>C00008\<close>, not
  \<^verbatim>\<open>C00001\<close>.
\<close>

theorem generateUserId_customer_follows_cashier:
  "generateUserId ''customer'' [''C00001'', ''C00002'', ''CS00001''] = Inr ''C00002''
   \<and> generateUserId ''customer'' [''CS00007''] = Inr ''C00008''"
  by (simp add: generateUserId_def rolePrefix_def generateId_def nextNumber_def greatest_def startsWith_def
      trailingDigits_def isDigit_def parseInt_def digitValue_def padStart_def digitChar_def replicate_pad)

subsection \<open>Leave requests of one employee do not overlap\<close>

lemma findLeaveRequestById_oid:
  "findLeaveRequestById coll i = Some d \<Longrightarrow> lr_oid d = i \<and> d \<in> set coll"
  by (induction coll) (auto simp: findLeaveRequestById_def split: if_splits)

lemma overlappingLeave_None:
  "overlappingLeave coll excluded emp s e = None \<Longrightarrow> x \<in> set coll \<Longrightarrow>
   (case excluded of None \<Rightarrow> True | Some i \<Rightarrow> lr_oid x \<noteq> i) \<Longrightarrow> employee x = emp \<Longrightarrow> activeLeave x \<Longrightarrow>
   \<not> (startDate x \<le> e \<and> s \<le> endDate x)"
  by (auto simp: overlappingLeave_def find_None_iff activeLeave_def)

lemma overlappingLeave_Some:
  "x \<in> set coll \<Longrightarrow> (case excluded of None \<Rightarrow> True | Some i \<Rightarrow> lr_oid x \<noteq> i) \<Longrightarrow> employee x = emp \<Longrightarrow>
   activeLeave x \<Longrightarrow> startDate x \<le> e \<Longrightarrow> s \<le> endDate x \<Longrightarrow>
   overlappingLeave coll excluded emp s e \<noteq> None"
  by (auto simp: overlappingLeave_def find_None_iff activeLeave_def)

lemma rangesIntersect_bounds:
  "rangesIntersect a b \<Longrightarrow> startDate a \<le> endDate b \<and> startDate b \<le> endDate a"
  by (auto simp: rangesIntersect_def)

lemma rangesIntersect_sym: "rangesIntersect a b = rangesIntersect b a"
  by (auto simp: rangesIntersect_def max.commute min.commute)

lemma map_oid_write:
  "lr_oid d = i \<Longrightarrow> map lr_oid (writeLeaveRequest coll d) = map lr_oid coll"
  by (induction coll) (auto simp: writeLeaveRequest_def)

lemma set_write:
  "x \<in> set (writeLeaveRequest coll d) \<Longrightarrow> x = d \<or> (x \<in> set coll \<and> lr_oid x \<noteq> lr_oid d)"
  by (auto simp: writeLeaveRequest_def split: if_splits)

lemma noOverlappingLeave_write:
  assumes inv: "noOverlappingLeave coll"
      and others: "\<forall>x\<in>set coll. lr_oid x \<noteq> lr_oid d \<and> employee x = employee d \<and> activeLeave x \<and> activeLeave d
                     \<longrightarrow> \<not> rangesIntersect x d"
  shows "noOverlappingLeave (writeLeaveRequest coll d)"
proof -
  have dist: "distinct (map lr_oid (writeLeaveRequest coll d))"
    using inv by (simp add: map_oid_write noOverlappingLeave_def)
  have pairs: "\<not> rangesIntersect a b"
    if a: "a \<in> set (writeLeaveRequest coll d)" and b: "b \<in> set (writeLeaveRequest coll d)"
      and ne: "a \<noteq> b" and emp: "employee a = employee b" and act: "activeLeave a" "activeLeave b" for a b
  proof -
    from set_write[OF a] set_write[OF b] ne
    consider "a = d" "b \<in> set coll" "lr_oid b \<noteq> lr_oid d"
      | "b = d" "a \<in> set coll" "lr_oid a \<noteq> lr_oid d"
      | "a \<in> set coll" "b \<in> set coll"
      by blast
    then show ?thesis
    proof cases
      case 1
      with others emp act have "\<not> rangesIntersect b d" by metis
      with 1 show ?thesis by (simp add: rangesIntersect_sym)
    next
      case 2
      with others emp act have "\<not> rangesIntersect a d" by metis
      with 2 show ?thesis by simp
    next
      case 3
      with inv ne emp act show ?thesis unfolding noOverlappingLeave_def by blast
    qed
  qed
  show ?thesis unfolding noOverlappingLeave_def using dist pairs by blast
qed

lemma noOverlappingLeave_other:
  assumes inv: "noOverlappingLeave coll" and found: "findLeaveRequestById coll i = Some lr"
      and x: "x \<in> set coll" "lr_oid x \<noteq> i" "employee x = employee lr" "activeLeave x" "activeLeave lr"
  shows "\<not> rangesIntersect x lr"
proof -
  have "lr \<in> set coll" "lr_oid lr = i" using findLeaveRequestById_oid[OF found] by simp_all
  with x have "x \<noteq> lr" by auto
  with inv x \<open>lr \<in> set coll\<close> show ?thesis unfolding noOverlappingLeave_def by blast
qed


lemma createLeaveRequest_cases:
  "(\<exists>e. createLeaveRequest us coll body uid newOid now = (Inl e, coll))
   \<or> (\<exists>d. createLeaveRequest us coll body uid newOid now = (Inr d, coll @ [d])
          \<and> lr_oid d = newOid \<and> employee d = idOf uid \<and> lr_status d = ''pending''
          \<and> lb_startDate body = Some (ValidDate (startDate d))
          \<and> lb_endDate body = Some (ValidDate (endDate d))
          \<and> overlappingLeave coll None (idOf uid) (startDate d) (endDate d) = None)"
  unfolding createLeaveRequest_def Let_def
  by (simp split: option.split jsDate.split)


lemma createLeaveRequest_preserves:
  assumes inv: "noOverlappingLeave coll" and fresh: "newOid \<notin> set (map lr_oid coll)"
  shows "noOverlappingLeave (snd (createLeaveRequest us coll body uid newOid now))"
proof -
  from createLeaveRequest_cases[of us coll body uid newOid now]
  consider e where "createLeaveRequest us coll body uid newOid now = (Inl e, coll)"
    | d where "createLeaveRequest us coll body uid newOid now = (Inr d, coll @ [d])"
        "lr_oid d = newOid" "employee d = idOf uid"
        "overlappingLeave coll None (idOf uid) (startDate d) (endDate d) = None"
    by blast
  then show ?thesis
  proof cases
    case 1
    with inv show ?thesis by simp
  next
    case 2
    have dist: "distinct (map lr_oid (coll @ [d]))"
      using inv fresh 2(2) by (auto simp: noOverlappingLeave_def)
    have new: "\<not> rangesIntersect x d" if "x \<in> set coll" "employee x = employee d" "activeLeave x" for x
    proof
      assume "rangesIntersect x d"
      then have "startDate x \<le> endDate d \<and> startDate d \<le> endDate x"
        by (rule rangesIntersect_bounds)
      moreover have "\<not> (startDate x \<le> endDate d \<and> startDate d \<le> endDate x)"
        using overlappingLeave_None[OF 2(4) that(1)] that 2(3) by simp
      ultimately show False by blast
    qed
    have pairs: "\<not> rangesIntersect a b"
      if "a \<in> set (coll @ [d])" "b \<in> set (coll @ [d])" "a \<noteq> b" "employee a = employee b"
         "activeLeave a" "activeLeave b" for a b
    proof -
      from that(1,2,3) consider "a \<in> set coll" "b \<in> set coll" | "a \<in> set coll" "b = d" | "a = d" "b \<in> set coll"
        by auto
      then show ?thesis
      proof cases
        case 1
        with inv that show ?thesis unfolding noOverlappingLeave_def by blast
      next
        case 2
        with new that show ?thesis by simp
      next
        case 3
        with new[of b] that show ?thesis by (simp add: rangesIntersect_sym)
      qed
    qed
    show ?thesis unfolding 2(1) snd_conv noOverlappingLeave_def using dist pairs by blast
  qed
qed

lemma createLeaveRequest_rejects_overlap:
  assumes x: "x \<in> set coll" "employee x = idOf uid" "activeLeave x"
      and body: "lb_startDate body = Some (ValidDate s)" "lb_endDate body = Some (ValidDate e)"
      and meet: "max (startDate x) s \<le> min (endDate x) e"
  shows "isl (fst (createLeaveRequest us coll body uid newOid now))
       \<and> snd (createLeaveRequest us coll body uid newOid now) = coll"
proof -
  have "startDate x \<le> e" "s \<le> endDate x" using meet by auto
  then have found: "overlappingLeave coll None (idOf uid) s e \<noteq> None"
    using overlappingLeave_Some[OF x(1), of None "idOf uid" e s] x by simp
  from createLeaveRequest_cases[of us coll body uid newOid now]
  show ?thesis
  proof (elim disjE exE conjE)
    fix err assume "createLeaveRequest us coll body uid newOid now = (Inl err, coll)"
    then show ?thesis by simp
  next
    fix d assume d: "lb_startDate body = Some (ValidDate (startDate d))"
        "lb_endDate body = Some (ValidDate (endDate d))"
        "overlappingLeave coll None (idOf uid) (startDate d) (endDate d) = None"
    with body found show ?thesis by simp
  qed
qed


lemma strictEqual_idOf: "strictEqual s uid \<Longrightarrow> idOf uid = s"
  by (cases uid) simp_all

lemma applyLeaveUpdate_fields:
  "lr_oid (applyLeaveUpdate body d) = lr_oid d"
  "employee (applyLeaveUpdate body d) = employee d"
  "lr_status (applyLeaveUpdate body d) = lr_status d"
  by (simp_all add: applyLeaveUpdate_def Let_def split: option.split jsDate.split)

lemma applyLeaveUpdate_range:
  "startDate (applyLeaveUpdate body d)
     = (case lb_startDate body of Some (ValidDate s) \<Rightarrow> s | _ \<Rightarrow> startDate d)"
  "endDate (applyLeaveUpdate body d)
     = (case lb_endDate body of Some (ValidDate e) \<Rightarrow> e | _ \<Rightarrow> endDate d)"
  by (simp_all add: applyLeaveUpdate_def Let_def split: option.split jsDate.split)

lemma checkUpdatedDates_None:
  assumes "checkUpdatedDates coll lr i uid body now = None"
  shows "(lb_startDate body = None \<and> lb_endDate body = None)
       \<or> overlappingLeave coll (Some i) (idOf uid)
            (startDate (applyLeaveUpdate body lr)) (endDate (applyLeaveUpdate body lr)) = None"
  using assms unfolding checkUpdatedDates_def Let_def applyLeaveUpdate_range
  by (simp split: option.splits jsDate.splits if_splits)

lemma updateLeaveRequest_cases:
  "(\<exists>e. updateLeaveRequest coll i uid body now = (Inl e, coll))
   \<or> (\<exists>lr. findLeaveRequestById coll i = Some lr \<and> strictEqual (employee lr) uid
          \<and> lr_status lr = ''pending''
          \<and> checkUpdatedDates coll lr i uid body now = None
          \<and> updateLeaveRequest coll i uid body now
               = (Inr (applyLeaveUpdate body lr), writeLeaveRequest coll (applyLeaveUpdate body lr)))"
  unfolding updateLeaveRequest_def Let_def
  by (simp split: option.split)


lemma updateLeaveRequest_preserves:
  assumes inv: "noOverlappingLeave coll"
  shows "noOverlappingLeave (snd (updateLeaveRequest coll i uid body now))"
proof -
  from updateLeaveRequest_cases[of coll i uid body now]
  consider e where "updateLeaveRequest coll i uid body now = (Inl e, coll)"
    | lr where "findLeaveRequestById coll i = Some lr" "strictEqual (employee lr) uid"
        "lr_status lr = ''pending''" "checkUpdatedDates coll lr i uid body now = None"
        "updateLeaveRequest coll i uid body now
           = (Inr (applyLeaveUpdate body lr), writeLeaveRequest coll (applyLeaveUpdate body lr))"
    by blast
  then show ?thesis
  proof cases
    case 1
    with inv show ?thesis by simp
  next
    case 2
    let ?d = "applyLeaveUpdate body lr"
    have oid: "lr_oid ?d = i" "lr_oid lr = i"
      using findLeaveRequestById_oid[OF 2(1)] by (simp_all add: applyLeaveUpdate_fields)
    have emp: "employee ?d = idOf uid" "employee lr = idOf uid"
      using strictEqual_idOf[OF 2(2)] by (simp_all add: applyLeaveUpdate_fields)
    have act: "activeLeave lr" using 2(3) by (simp add: activeLeave_def)
    have others: "\<not> rangesIntersect x ?d"
      if x: "x \<in> set coll" "lr_oid x \<noteq> lr_oid ?d" "employee x = employee ?d" "activeLeave x" for x
    proof (cases "lb_startDate body = None \<and> lb_endDate body = None")
      case True
      then have same: "startDate ?d = startDate lr" "endDate ?d = endDate lr"
        by (simp_all add: applyLeaveUpdate_range)
      have "\<not> rangesIntersect x lr"
        using noOverlappingLeave_other[OF inv 2(1) x(1)] x oid emp act by simp
      then show ?thesis by (simp add: rangesIntersect_def same)
    next
      case False
      with checkUpdatedDates_None[OF 2(4)]
      have none: "overlappingLeave coll (Some i) (idOf uid) (startDate ?d) (endDate ?d) = None"
        by blast
      have "\<not> (startDate x \<le> endDate ?d \<and> startDate ?d \<le> endDate x)"
        using overlappingLeave_None[OF none x(1)] x oid emp by simp
      then show ?thesis using rangesIntersect_bounds by blast
    qed
    have "noOverlappingLeave (writeLeaveRequest coll ?d)"
      by (rule noOverlappingLeave_write[OF inv]) (use others in blast)
    then show ?thesis by (simp add: 2(5))
  qed
qed

lemma updateLeaveRequest_rejects_overlap:
  assumes x: "x \<in> set coll" "lr_oid x \<noteq> i" "employee x = idOf uid" "activeLeave x"
      and body: "lb_startDate body = Some (ValidDate s)" "lb_endDate body = Some (ValidDate e)"
      and meet: "max (startDate x) s \<le> min (endDate x) e"
  shows "isl (fst (updateLeaveRequest coll i uid body now))
       \<and> snd (updateLeaveRequest coll i uid body now) = coll"
proof -
  have "startDate x \<le> e" "s \<le> endDate x" using meet by auto
  then have found: "overlappingLeave coll (Some i) (idOf uid) s e \<noteq> None"
    using overlappingLeave_Some[OF x(1), of "Some i" "idOf uid" e s] x by simp
  from updateLeaveRequest_cases[of coll i uid body now]
  show ?thesis
  proof (elim disjE exE conjE)
    fix err assume "updateLeaveRequest coll i uid body now = (Inl err, coll)"
    then show ?thesis by simp
  next
    fix lr assume "checkUpdatedDates coll lr i uid body now = None"
    from checkUpdatedDates_None[OF this] body found
    show ?thesis by (simp add: applyLeaveUpdate_range)
  qed
qed

lemma approveLeaveRequest_preserves:
  assumes inv: "noOverlappingLeave coll"
  shows "noOverlappingLeave (snd (approveLeaveRequest coll i uid now))"
proof (cases "findLeaveRequestById coll i")
  case None
  with inv show ?thesis by (simp add: approveLeaveRequest_def)
next
  case (Some lr)
  show ?thesis
  proof (cases "lr_status lr = ''pending''")
    case False
    with inv Some show ?thesis by (simp add: approveLeaveRequest_def)
  next
    case True
    let ?d = "lr\<lparr>lr_status := ''approved'', lr_approvedBy := Some (idOf uid), lr_approvedAt := Some now,
                 totalDays := Some (computeTotalDays (startDate lr) (endDate lr))\<rparr>"
    have oid: "lr_oid lr = i" using findLeaveRequestById_oid[OF Some] by simp
    have act: "activeLeave lr" using True by (simp add: activeLeave_def)
    have others: "\<not> rangesIntersect x ?d"
      if x: "x \<in> set coll" "lr_oid x \<noteq> lr_oid ?d" "employee x = employee ?d" "activeLeave x" for x
    proof -
      have "\<not> rangesIntersect x lr"
        using noOverlappingLeave_other[OF inv Some x(1)] x oid act by simp
      then show ?thesis by (simp add: rangesIntersect_def)
    qed
    have "noOverlappingLeave (writeLeaveRequest coll ?d)"
      by (rule noOverlappingLeave_write[OF inv]) (use others in blast)
    then show ?thesis using Some True by (simp add: approveLeaveRequest_def Let_def)
  qed
qed

lemma rejectLeaveRequest_preserves:
  assumes inv: "noOverlappingLeave coll"
  shows "noOverlappingLeave (snd (rejectLeaveRequest coll i uid why now))"
proof -
  have rej: "noOverlappingLeave (writeLeaveRequest coll d)" if "lr_status d = ''rejected''" for d
    by (rule noOverlappingLeave_write[OF inv]) (simp add: that activeLeave_def)
  show ?thesis
    using inv rej by (simp add: rejectLeaveRequest_def Let_def split: option.split)
qed

lemma deleteLeaveRequest_preserves:
  assumes inv: "noOverlappingLeave coll"
  shows "noOverlappingLeave (snd (deleteLeaveRequest coll i uid))"
proof -
  have "noOverlappingLeave (filter (\<lambda>d. lr_oid d \<noteq> i) coll)"
    using inv unfolding noOverlappingLeave_def by (auto simp: distinct_map_filter)
  with inv show ?thesis by (simp add: deleteLeaveRequest_def split: option.split)
qed


lemma noOverlappingLeave_empty: "noOverlappingLeave []"
  by (simp add: noOverlappingLeave_def)

text \<open>
  Claim C9.  The property "no two distinct stored leave requests of one
  employee that are both pending or approved have intersecting date ranges" is
  preserved by every operation of the controller that writes leave requests
  (create, update, approve, reject, delete), and it holds of the empty
  collection.  In particular a create, and an update of another request, whose
  range \<open>[s, e]\<close> intersects the range of a stored pending or approved
  request of the same employee ends with an error and writes nothing.
\<close>

theorem leave_requests_never_overlap:
  assumes inv: "noOverlappingLeave coll" and fresh: "newOid \<notin> set (map lr_oid coll)"
  shows "noOverlappingLeave (snd (createLeaveRequest us coll body uid newOid now))
       \<and> noOverlappingLeave (snd (updateLeaveRequest coll i uid body now))
       \<and> noOverlappingLeave (snd (approveLeaveRequest coll i uid now))
       \<and> noOverlappingLeave (snd (rejectLeaveRequest coll i uid why now))
       \<and> noOverlappingLeave (snd (deleteLeaveRequest coll i uid))
       \<and> (\<forall>x\<in>set coll. \<forall>s e.
             employee x = idOf uid \<and> activeLeave x
             \<and> lb_startDate body = Some (ValidDate s) \<and> lb_endDate body = Some (ValidDate e)
             \<and> max (startDate x) s \<le> min (endDate x) e
             \<longrightarrow> isl (fst (createLeaveRequest us coll body uid newOid now))
               \<and> snd (createLeaveRequest us coll body uid newOid now) = coll
               \<and> (lr_oid x \<noteq> i \<longrightarrow> isl (fst (updateLeaveRequest coll i uid body now))
                                   \<and> snd (updateLeaveRequest coll i uid body now) = coll))"
proof (intro conjI ballI allI impI)
  show "noOverlappingLeave (snd (createLeaveRequest us coll body uid newOid now))"
    by (rule createLeaveRequest_preserves[OF inv fresh])
  show "noOverlappingLeave (snd (updateLeaveRequest coll i uid body now))"
    by (rule updateLeaveRequest_preserves[OF inv])
  show "noOverlappingLeave (snd (approveLeaveRequest coll i uid now))"
    by (rule approveLeaveRequest_preserves[OF inv])
  show "noOverlappingLeave (snd (rejectLeaveRequest coll i uid why now))"
    by (rule rejectLeaveRequest_preserves[OF inv])
  show "noOverlappingLeave (snd (deleteLeaveRequest coll i uid))"
    by (rule deleteLeaveRequest_preserves[OF inv])
next
  fix x s e
  assume x: "x \<in> set coll"
    and h: "employee x = idOf uid \<and> activeLeave x
             \<and> lb_startDate body = Some (ValidDate s) \<and> lb_endDate body = Some (ValidDate e)
             \<and> max (startDate x) s \<le> min (endDate x) e"
  from createLeaveRequest_rejects_overlap[OF x, of uid body s e us newOid now] h
  show "isl (fst (createLeaveRequest us coll body uid newOid now))"
    and "snd (createLeaveRequest us coll body uid newOid now) = coll"
    by simp_all
  assume ne: "lr_oid x \<noteq> i"
  from updateLeaveRequest_rejects_overlap[OF x ne, of uid body s e now] h
  show "isl (fst (updateLeaveRequest coll i uid body now))"
    and "snd (updateLeaveRequest coll i uid body now) = coll"
    by simp_all
qed

theorem leave_requests_never_overlap_witness:
  "noOverlappingLeave [exampleLeave]
   \<and> ''l2'' \<notin> set (map lr_oid [exampleLeave])
   \<and> createLeaveRequest [exampleEmployee] [exampleLeave] overlappingBody (IdObject ''e1'') ''l2'' 50
       = (Inl (CustomAPIError ''You already have a leave request for overlapping dates'' 400), [exampleLeave])
   \<and> length (snd (createLeaveRequest [exampleEmployee] [exampleLeave] laterBody (IdObject ''e1'') ''l2'' 50)) = 2
   \<and> noOverlappingLeave (snd (createLeaveRequest [exampleEmployee] [exampleLeave] laterBody (IdObject ''e1'') ''l2'' 50))"
proof -
  have inv: "noOverlappingLeave [exampleLeave]"
    by (simp add: noOverlappingLeave_def)
  have fresh: "''l2'' \<notin> set (map lr_oid [exampleLeave])"
    by (simp add: exampleLeave_def)
  have rejected: "createLeaveRequest [exampleEmployee] [exampleLeave] overlappingBody (IdObject ''e1'') ''l2'' 50
       = (Inl (CustomAPIError ''You already have a leave request for overlapping dates'' 400), [exampleLeave])"
    by (simp add: createLeaveRequest_def overlappingBody_def findUserById_def exampleEmployee_def
          employeeRoles_def overlappingLeave_def exampleLeave_def)
  have stored: "length (snd (createLeaveRequest [exampleEmployee] [exampleLeave] laterBody (IdObject ''e1'') ''l2'' 50)) = 2"
    by (simp add: createLeaveRequest_def laterBody_def findUserById_def exampleEmployee_def
          employeeRoles_def overlappingLeave_def exampleLeave_def validateLeaveFields_def leaveTypeEnum_def
          trim_def isSpace_def generateId_def nextNumber_def greatest_def startsWith_def
          trailingDigits_def isDigit_def parseInt_def digitValue_def padStart_def digitChar_def
          replicate_pad Let_def)
  from leave_requests_never_overlap[OF inv fresh, of "[exampleEmployee]" laterBody "IdObject ''e1''" 50]
  have "noOverlappingLeave (snd (createLeaveRequest [exampleEmployee] [exampleLeave] laterBody (IdObject ''e1'') ''l2'' 50))"
    by (rule conjunct1)
  with inv fresh rejected stored show ?thesis by (intro conjI)
qed

subsection \<open>Paid and cancelled invoices\<close>

lemma findInvoiceById_oid: "findInvoiceById coll i = Some d \<Longrightarrow> inv_oid d = i \<and> d \<in> set coll"
  by (induction coll) (auto simp: findInvoiceById_def split: if_splits)

lemma saveInvoice_same_status:
  "fst (saveInvoice coll stored d) = Inr d' \<Longrightarrow> d' = d"
  by (auto simp: saveInvoice_def split: if_splits)
















end
